theory Spec2Isabelle
  imports Main "HOL-Library.Word"
begin

unbundle bit_operations_syntax

section \<open>The SX1276 driver (drivers/sx1276/sx1276.c)\<close>

text \<open>
  A shallow embedding of the driver functions of \<^verbatim>\<open>sx1276.c\<close>. The device
  structure is passed explicitly and returned updated. Everything the driver does
  to the outside (register accesses over the bus, antenna-switch callbacks,
  delays, timer calls, events sent to the application) is appended to a trace
  carried in the device state, in program order.
\<close>

subsection \<open>Constants of the missing headers\<close>

text \<open>
  The macros of \<^verbatim>\<open>sx1276.h\<close>, \<^verbatim>\<open>include/sx1276_regs_lora.h\<close> and
  \<^verbatim>\<open>include/sx1276_regs_fsk.h\<close> are used by the driver but the headers are
  not among the source files. They are taken as a parameter: one field per macro,
  under the macro's name. Register addresses, bit masks and field values are
  bytes. \<^verbatim>\<open>FREQ_STEP\<close> is a floating-point constant in the source; it is
  given as the fraction \<open>FREQ_STEP_NUM / FREQ_STEP_DEN\<close>.
\<close>

record sx1276_consts =
  REG_OPMODE :: "8 word"
  REG_FRFMSB :: "8 word"
  REG_FRFMID :: "8 word"
  REG_FRFLSB :: "8 word"
  REG_PACONFIG :: "8 word"
  REG_PARAMP :: "8 word"
  REG_PADAC :: "8 word"
  REG_DIOMAPPING1 :: "8 word"
  REG_DIOMAPPING2 :: "8 word"
  REG_RSSIVALUE :: "8 word"
  REG_LR_FIFOADDRPTR :: "8 word"
  REG_LR_FIFORXBASEADDR :: "8 word"
  REG_LR_FIFORXCURRENTADDR :: "8 word"
  REG_LR_IRQFLAGSMASK :: "8 word"
  REG_LR_IRQFLAGS :: "8 word"
  REG_LR_RXNBBYTES :: "8 word"
  REG_LR_PKTSNRVALUE :: "8 word"
  REG_LR_PKTRSSIVALUE :: "8 word"
  REG_LR_RSSIVALUE :: "8 word"
  REG_LR_HOPCHANNEL :: "8 word"
  REG_LR_MODEMCONFIG1 :: "8 word"
  REG_LR_MODEMCONFIG2 :: "8 word"
  REG_LR_MODEMCONFIG3 :: "8 word"
  REG_LR_SYMBTIMEOUTLSB :: "8 word"
  REG_LR_PREAMBLEMSB :: "8 word"
  REG_LR_PREAMBLELSB :: "8 word"
  REG_LR_PAYLOADLENGTH :: "8 word"
  REG_LR_HOPPERIOD :: "8 word"
  REG_LR_PLLHOP :: "8 word"
  REG_LR_DETECTOPTIMIZE :: "8 word"
  REG_LR_DETECTIONTHRESHOLD :: "8 word"
  REG_LR_INVERTIQ :: "8 word"
  REG_LR_INVERTIQ2 :: "8 word"
  REG_LR_TEST2F :: "8 word"
  REG_LR_TEST30 :: "8 word"
  REG_LR_TEST36 :: "8 word"
  REG_LR_TEST3A :: "8 word"
  RF_OPMODE_MASK :: "8 word"
  RF_OPMODE_SLEEP :: "8 word"
  RF_OPMODE_STANDBY :: "8 word"
  RF_OPMODE_TRANSMITTER :: "8 word"
  RFLR_OPMODE_RECEIVER :: "8 word"
  RFLR_OPMODE_RECEIVER_SINGLE :: "8 word"
  RFLR_OPMODE_LONGRANGEMODE_MASK :: "8 word"
  RFLR_OPMODE_LONGRANGEMODE_ON :: "8 word"
  RFLR_OPMODE_LONGRANGEMODE_OFF :: "8 word"
  RF_PACONFIG_PASELECT_MASK :: "8 word"
  RF_PACONFIG_PASELECT_PABOOST :: "8 word"
  RF_PACONFIG_PASELECT_RFO :: "8 word"
  RF_PACONFIG_MAX_POWER_MASK :: "8 word"
  RF_PACONFIG_OUTPUTPOWER_MASK :: "8 word"
  RF_PADAC_20DBM_MASK :: "8 word"
  RF_PADAC_20DBM_ON :: "8 word"
  RF_PADAC_20DBM_OFF :: "8 word"
  RF_PARAMP_0050_US :: "8 word"
  RFLR_MODEMCONFIG1_BW_MASK :: "8 word"
  RFLR_MODEMCONFIG1_CODINGRATE_MASK :: "8 word"
  RFLR_MODEMCONFIG1_IMPLICITHEADER_MASK :: "8 word"
  RFLR_MODEMCONFIG2_SF_MASK :: "8 word"
  RFLR_MODEMCONFIG2_RXPAYLOADCRC_MASK :: "8 word"
  RFLR_MODEMCONFIG2_SYMBTIMEOUTMSB_MASK :: "8 word"
  RFLR_MODEMCONFIG3_LOWDATARATEOPTIMIZE_MASK :: "8 word"
  RFLR_PLLHOP_FASTHOP_MASK :: "8 word"
  RFLR_PLLHOP_FASTHOP_ON :: "8 word"
  RFLR_DETECTIONOPTIMIZE_MASK :: "8 word"
  RFLR_DETECTIONOPTIMIZE_SF6 :: "8 word"
  RFLR_DETECTIONOPTIMIZE_SF7_TO_SF12 :: "8 word"
  RFLR_DETECTIONTHRESH_SF6 :: "8 word"
  RFLR_DETECTIONTHRESH_SF7_TO_SF12 :: "8 word"
  RFLR_INVERTIQ_RX_MASK :: "8 word"
  RFLR_INVERTIQ_RX_ON :: "8 word"
  RFLR_INVERTIQ_RX_OFF :: "8 word"
  RFLR_INVERTIQ_TX_MASK :: "8 word"
  RFLR_INVERTIQ_TX_OFF :: "8 word"
  RFLR_INVERTIQ2_ON :: "8 word"
  RFLR_INVERTIQ2_OFF :: "8 word"
  RFLR_DIOMAPPING1_DIO0_MASK :: "8 word"
  RFLR_DIOMAPPING1_DIO0_00 :: "8 word"
  RFLR_DIOMAPPING1_DIO2_MASK :: "8 word"
  RFLR_DIOMAPPING1_DIO2_00 :: "8 word"
  RFLR_IRQFLAGS_RXDONE :: "8 word"
  RFLR_IRQFLAGS_PAYLOADCRCERROR :: "8 word"
  RFLR_IRQFLAGS_PAYLOADCRCERROR_MASK :: "8 word"
  RFLR_IRQFLAGS_VALIDHEADER :: "8 word"
  RFLR_IRQFLAGS_TXDONE :: "8 word"
  RFLR_IRQFLAGS_CADDONE :: "8 word"
  RFLR_IRQFLAGS_FHSSCHANGEDCHANNEL :: "8 word"
  RFLR_IRQFLAGS_CADDETECTED :: "8 word"
  RF_MID_BAND_THRESH :: "32 word"
  FREQ_STEP_NUM :: nat
  FREQ_STEP_DEN :: nat

text \<open>
  One instance of the parameter, used wherever the driver is evaluated on a
  concrete input: the register map of the SX1276 data sheet, a mid-band
  threshold of 525 MHz and the synthesizer step
  \<open>32 MHz / 2^19 = 61.03515625 Hz = 15625 / 256 Hz\<close>.
\<close>

definition datasheet :: sx1276_consts where
  "datasheet = \<lparr>
    REG_OPMODE = 0x01, REG_FRFMSB = 0x06, REG_FRFMID = 0x07, REG_FRFLSB = 0x08,
    REG_PACONFIG = 0x09, REG_PARAMP = 0x0A, REG_PADAC = 0x4D,
    REG_DIOMAPPING1 = 0x40, REG_DIOMAPPING2 = 0x41, REG_RSSIVALUE = 0x11,
    REG_LR_FIFOADDRPTR = 0x0D, REG_LR_FIFORXBASEADDR = 0x0F,
    REG_LR_FIFORXCURRENTADDR = 0x10, REG_LR_IRQFLAGSMASK = 0x11,
    REG_LR_IRQFLAGS = 0x12, REG_LR_RXNBBYTES = 0x13, REG_LR_PKTSNRVALUE = 0x19,
    REG_LR_PKTRSSIVALUE = 0x1A, REG_LR_RSSIVALUE = 0x1B, REG_LR_HOPCHANNEL = 0x1C,
    REG_LR_MODEMCONFIG1 = 0x1D, REG_LR_MODEMCONFIG2 = 0x1E,
    REG_LR_MODEMCONFIG3 = 0x26, REG_LR_SYMBTIMEOUTLSB = 0x1F,
    REG_LR_PREAMBLEMSB = 0x20, REG_LR_PREAMBLELSB = 0x21,
    REG_LR_PAYLOADLENGTH = 0x22, REG_LR_HOPPERIOD = 0x24, REG_LR_PLLHOP = 0x44,
    REG_LR_DETECTOPTIMIZE = 0x31, REG_LR_DETECTIONTHRESHOLD = 0x37,
    REG_LR_INVERTIQ = 0x33, REG_LR_INVERTIQ2 = 0x3B, REG_LR_TEST2F = 0x2F,
    REG_LR_TEST30 = 0x30, REG_LR_TEST36 = 0x36, REG_LR_TEST3A = 0x3A,
    RF_OPMODE_MASK = 0xF8, RF_OPMODE_SLEEP = 0x00, RF_OPMODE_STANDBY = 0x01,
    RF_OPMODE_TRANSMITTER = 0x03, RFLR_OPMODE_RECEIVER = 0x05,
    RFLR_OPMODE_RECEIVER_SINGLE = 0x06, RFLR_OPMODE_LONGRANGEMODE_MASK = 0x7F,
    RFLR_OPMODE_LONGRANGEMODE_ON = 0x80, RFLR_OPMODE_LONGRANGEMODE_OFF = 0x00,
    RF_PACONFIG_PASELECT_MASK = 0x7F, RF_PACONFIG_PASELECT_PABOOST = 0x80,
    RF_PACONFIG_PASELECT_RFO = 0x00, RF_PACONFIG_MAX_POWER_MASK = 0x8F,
    RF_PACONFIG_OUTPUTPOWER_MASK = 0xF0, RF_PADAC_20DBM_MASK = 0xF8,
    RF_PADAC_20DBM_ON = 0x07, RF_PADAC_20DBM_OFF = 0x04, RF_PARAMP_0050_US = 0x08,
    RFLR_MODEMCONFIG1_BW_MASK = 0x0F, RFLR_MODEMCONFIG1_CODINGRATE_MASK = 0xF1,
    RFLR_MODEMCONFIG1_IMPLICITHEADER_MASK = 0xFE, RFLR_MODEMCONFIG2_SF_MASK = 0x0F,
    RFLR_MODEMCONFIG2_RXPAYLOADCRC_MASK = 0xFB,
    RFLR_MODEMCONFIG2_SYMBTIMEOUTMSB_MASK = 0xFC,
    RFLR_MODEMCONFIG3_LOWDATARATEOPTIMIZE_MASK = 0xF7,
    RFLR_PLLHOP_FASTHOP_MASK = 0x7F, RFLR_PLLHOP_FASTHOP_ON = 0x80,
    RFLR_DETECTIONOPTIMIZE_MASK = 0xF8, RFLR_DETECTIONOPTIMIZE_SF6 = 0x05,
    RFLR_DETECTIONOPTIMIZE_SF7_TO_SF12 = 0x03, RFLR_DETECTIONTHRESH_SF6 = 0x0C,
    RFLR_DETECTIONTHRESH_SF7_TO_SF12 = 0x0A, RFLR_INVERTIQ_RX_MASK = 0xBF,
    RFLR_INVERTIQ_RX_ON = 0x40, RFLR_INVERTIQ_RX_OFF = 0x00,
    RFLR_INVERTIQ_TX_MASK = 0xFE, RFLR_INVERTIQ_TX_OFF = 0x01,
    RFLR_INVERTIQ2_ON = 0x19, RFLR_INVERTIQ2_OFF = 0x1D,
    RFLR_DIOMAPPING1_DIO0_MASK = 0x3F, RFLR_DIOMAPPING1_DIO0_00 = 0x00,
    RFLR_DIOMAPPING1_DIO2_MASK = 0xF3, RFLR_DIOMAPPING1_DIO2_00 = 0x00,
    RFLR_IRQFLAGS_RXDONE = 0x40, RFLR_IRQFLAGS_PAYLOADCRCERROR = 0x20,
    RFLR_IRQFLAGS_PAYLOADCRCERROR_MASK = 0x20, RFLR_IRQFLAGS_VALIDHEADER = 0x10,
    RFLR_IRQFLAGS_TXDONE = 0x08, RFLR_IRQFLAGS_CADDONE = 0x04,
    RFLR_IRQFLAGS_FHSSCHANGEDCHANNEL = 0x02, RFLR_IRQFLAGS_CADDETECTED = 0x01,
    RF_MID_BAND_THRESH = 525000000, FREQ_STEP_NUM = 15625, FREQ_STEP_DEN = 256 \<rparr>"

subsection \<open>Device state and effects\<close>

text \<open>
  \<^verbatim>\<open>sx1276_radio_modems_t\<close> is a C enum: besides the two enumerators a
  variable of that type can hold any other integer, which is what the
  \<^verbatim>\<open>default:\<close> branches of the driver's switches are for.
\<close>

datatype sx1276_radio_modems_t = MODEM_FSK | MODEM_LORA | MODEM_OTHER nat

datatype sx1276_radio_state_t = RF_IDLE | RF_RX_RUNNING | RF_TX_RUNNING | RF_CAD

record sx1276_rx_packet_t =
  snr_value :: "8 word"
  rssi_value :: "16 word"
  pkt_size :: "8 word"
  content :: "8 word list"

datatype sx1276_event_type_t =
  RX_DONE | TX_DONE | RX_TIMEOUT | TX_TIMEOUT | RX_ERROR | FHSS_CHANGE_CHANNEL | CAD_DONE

text \<open>What the \<^verbatim>\<open>void *\<close> event payload points to.\<close>

datatype event_data =
  Null | Packet sx1276_rx_packet_t | Text string | Channel "32 word" | Flag bool

datatype xtimer_t = tx_timeout_timer | rx_timeout_timer

datatype effect =
    RegWrite "8 word" "8 word"
  | RegRead "8 word"
  | FifoRead "8 word"
  | AntSwLowPower bool
  | AntSw "8 word"
  | Usleep nat
  | XtimerSet xtimer_t "32 word"
  | XtimerRemove xtimer_t
  | SendEvent sx1276_event_type_t event_data

text \<open>
  \<^verbatim>\<open>sx1276_t\<close>: the fields of \<^verbatim>\<open>dev->settings\<close> and
  \<^verbatim>\<open>dev->settings.lora\<close> that the driver uses, and with them the chip on
  the other side of the bus (its register file and its packet FIFO) and the trace.
\<close>

record sx1276_t =
  settings_modem :: sx1276_radio_modems_t
  settings_state :: sx1276_radio_state_t
  settings_channel :: "32 word"
  lora_bandwidth :: "32 word"
  lora_datarate :: "32 word"
  lora_coderate :: "8 word"
  lora_preamble_len :: "16 word"
  lora_implicit_header :: bool
  lora_payload_len :: "8 word"
  lora_crc_on :: bool
  lora_freq_hop_on :: bool
  lora_hop_period :: "8 word"
  lora_iq_inverted :: bool
  lora_rx_continuous :: bool
  lora_tx_timeout :: "32 word"
  lora_low_datarate_optimize :: "8 word"
  regs :: "8 word \<Rightarrow> 8 word"
  fifo :: "8 word \<Rightarrow> 8 word"
  trace :: "effect list"

text \<open>What can keep a driver function from returning normally.\<close>

datatype fault = OutOfMemory

subsection \<open>Register transport\<close>

text \<open>
  \<^verbatim>\<open>sx1276_reg_write_burst\<close> sends \<^verbatim>\<open>addr | 0x80\<close> and
  \<^verbatim>\<open>sx1276_reg_read_burst\<close> sends \<^verbatim>\<open>addr & 0x7F\<close>: bit 7 is the
  write flag, so both address register \<open>addr AND 0x7F\<close>.

  The chip is a register file. A write stores the byte, except at the LoRa
  interrupt-flag register: there, as the driver's \<^verbatim>\<open>/* Clear IRQ */\<close>
  writes rely on, every 1 written clears that flag and a 0 leaves it alone.
  What the chip does by itself between two bus accesses is not modelled.
\<close>

definition reg_index :: "8 word \<Rightarrow> 8 word" where
  "reg_index addr = addr AND 0x7F"

definition chip_write ::
  "sx1276_consts \<Rightarrow> (8 word \<Rightarrow> 8 word) \<Rightarrow> 8 word \<Rightarrow> 8 word \<Rightarrow> (8 word \<Rightarrow> 8 word)" where
  "chip_write K rf addr data =
     (if reg_index addr = reg_index (REG_LR_IRQFLAGS K)
      then rf(reg_index addr := rf (reg_index addr) AND NOT data)
      else rf(reg_index addr := data))"

definition chip_reg :: "sx1276_t \<Rightarrow> 8 word \<Rightarrow> 8 word" where
  "chip_reg dev addr = regs dev (reg_index addr)"

definition emit :: "sx1276_t \<Rightarrow> effect \<Rightarrow> sx1276_t" where
  "emit dev e = dev\<lparr>trace := trace dev @ [e]\<rparr>"

definition sx1276_reg_write ::
  "sx1276_consts \<Rightarrow> sx1276_t \<Rightarrow> 8 word \<Rightarrow> 8 word \<Rightarrow> sx1276_t" where
  "sx1276_reg_write K dev addr data =
     emit (dev\<lparr>regs := chip_write K (regs dev) addr data\<rparr>) (RegWrite addr data)"

definition sx1276_reg_read :: "sx1276_t \<Rightarrow> 8 word \<Rightarrow> 8 word \<times> sx1276_t" where
  "sx1276_reg_read dev addr = (chip_reg dev addr, emit dev (RegRead addr))"

text \<open>
  \<^verbatim>\<open>sx1276_read_fifo\<close>: a burst read of \<open>size\<close> bytes at address 0, which
  the chip serves from its packet buffer starting at the FIFO address pointer.
\<close>

definition sx1276_read_fifo ::
  "sx1276_consts \<Rightarrow> sx1276_t \<Rightarrow> 8 word \<Rightarrow> 8 word list \<times> sx1276_t" where
  "sx1276_read_fifo K dev sz =
     (map (\<lambda>i. fifo dev (chip_reg dev (REG_LR_FIFOADDRPTR K) + word_of_nat i)) [0 ..< unat sz],
      emit dev (FifoRead sz))"

subsection \<open>Collaborators: board callbacks, delays, timers, events\<close>

definition sx1276_board_set_ant_sw_low_power :: "sx1276_t \<Rightarrow> bool \<Rightarrow> sx1276_t" where
  "sx1276_board_set_ant_sw_low_power dev lp = emit dev (AntSwLowPower lp)"

definition sx1276_board_set_ant_sw :: "sx1276_t \<Rightarrow> 8 word \<Rightarrow> sx1276_t" where
  "sx1276_board_set_ant_sw dev tx = emit dev (AntSw tx)"

definition xtimer_usleep :: "sx1276_t \<Rightarrow> nat \<Rightarrow> sx1276_t" where
  "xtimer_usleep dev us = emit dev (Usleep us)"

definition xtimer_set :: "sx1276_t \<Rightarrow> xtimer_t \<Rightarrow> 32 word \<Rightarrow> sx1276_t" where
  "xtimer_set dev t us = emit dev (XtimerSet t us)"

definition xtimer_remove :: "sx1276_t \<Rightarrow> xtimer_t \<Rightarrow> sx1276_t" where
  "xtimer_remove dev t = emit dev (XtimerRemove t)"

definition send_event :: "sx1276_t \<Rightarrow> sx1276_event_type_t \<Rightarrow> event_data \<Rightarrow> sx1276_t" where
  "send_event dev event_type cont = emit dev (SendEvent event_type cont)"

definition sx1276_set_status :: "sx1276_t \<Rightarrow> sx1276_radio_state_t \<Rightarrow> sx1276_t" where
  "sx1276_set_status dev st = dev\<lparr>settings_state := st\<rparr>"

subsection \<open>Operating mode, channel, modem\<close>

text \<open>
  \<^verbatim>\<open>sx1276_set_op_mode\<close>. The static \<^verbatim>\<open>op_mode_prev\<close> is assigned
  before it is read in every call, so it is a local value here.
\<close>

definition sx1276_set_op_mode :: "sx1276_consts \<Rightarrow> sx1276_t \<Rightarrow> 8 word \<Rightarrow> sx1276_t" where
  "sx1276_set_op_mode K dev op_mode =
     (let (r, dev) = sx1276_reg_read dev (REG_OPMODE K);
          op_mode_prev = r AND NOT (RF_OPMODE_MASK K)
      in if op_mode \<noteq> op_mode_prev then
           let dev =
                 (if op_mode = RF_OPMODE_SLEEP K
                  then sx1276_board_set_ant_sw_low_power dev True
                  else let dev = sx1276_board_set_ant_sw_low_power dev False
                       in if op_mode = RF_OPMODE_TRANSMITTER K
                          then sx1276_board_set_ant_sw dev 1
                          else sx1276_board_set_ant_sw dev 0);
               dev = sx1276_reg_write K dev (REG_OPMODE K)
                       ((op_mode_prev AND RF_OPMODE_MASK K) OR op_mode)
           in xtimer_usleep dev (1000 * 5)
         else dev)"

text \<open>
  \<^verbatim>\<open>freq = (uint32_t)((double) freq / (double) FREQ_STEP)\<close>: the quotient,
  truncated by the conversion to \<^verbatim>\<open>uint32_t\<close>. With the step
  \<open>15625 / 256\<close> both operands are exact doubles, and a quotient that is not
  an integer is at least \<open>1 / 15625\<close> away from the next one, far more than
  the rounding error of the division below \<open>2^27\<close>, so the truncated
  floating-point quotient is the truncated exact quotient.
\<close>

definition freq_to_ticks :: "sx1276_consts \<Rightarrow> 32 word \<Rightarrow> 32 word" where
  "freq_to_ticks K freq = word_of_nat (unat freq * FREQ_STEP_DEN K div FREQ_STEP_NUM K)"

definition sx1276_set_channel :: "sx1276_consts \<Rightarrow> sx1276_t \<Rightarrow> 32 word \<Rightarrow> sx1276_t" where
  "sx1276_set_channel K dev freq =
     (let (prev_mode, dev) = sx1276_reg_read dev (REG_OPMODE K);
          dev = sx1276_set_op_mode K dev (RF_OPMODE_STANDBY K);
          freq = freq_to_ticks K freq;
          dev = sx1276_reg_write K dev (REG_FRFMSB K) (ucast (drop_bit 16 freq AND 0xFF));
          dev = sx1276_reg_write K dev (REG_FRFMID K) (ucast (drop_bit 8 freq AND 0xFF));
          dev = sx1276_reg_write K dev (REG_FRFLSB K) (ucast (freq AND 0xFF))
      in sx1276_reg_write K dev (REG_OPMODE K) prev_mode)"

text \<open>\<^verbatim>\<open>sx1276_set_modem\<close>.\<close>

definition sx1276_set_modem ::
  "sx1276_consts \<Rightarrow> sx1276_t \<Rightarrow> sx1276_radio_modems_t \<Rightarrow> sx1276_t" where
  "sx1276_set_modem K dev modem =
     (let dev = dev\<lparr>settings_modem := modem\<rparr>
      in case settings_modem dev of
           MODEM_LORA \<Rightarrow>
             let dev = sx1276_set_op_mode K dev (RF_OPMODE_SLEEP K);
                 (r, dev) = sx1276_reg_read dev (REG_OPMODE K);
                 dev = sx1276_reg_write K dev (REG_OPMODE K)
                         ((r AND RFLR_OPMODE_LONGRANGEMODE_MASK K)
                          OR RFLR_OPMODE_LONGRANGEMODE_ON K);
                 dev = sx1276_reg_write K dev (REG_DIOMAPPING1 K) 0x00
             in sx1276_reg_write K dev (REG_DIOMAPPING2 K) 0x10
         | MODEM_FSK \<Rightarrow>
             let dev = sx1276_set_op_mode K dev (RF_OPMODE_SLEEP K);
                 (r, dev) = sx1276_reg_read dev (REG_OPMODE K);
                 dev = sx1276_reg_write K dev (REG_OPMODE K)
                         ((r AND RFLR_OPMODE_LONGRANGEMODE_MASK K)
                          OR RFLR_OPMODE_LONGRANGEMODE_OFF K)
             in sx1276_reg_write K dev (REG_DIOMAPPING1 K) 0x00
         | MODEM_OTHER n \<Rightarrow> dev)"

subsection \<open>Receive and transmit configuration\<close>

text \<open>
  \<^verbatim>\<open>while (1) { }\<close>, the driver's answer to an unsupported bandwidth: a
  loop that never exits, so a call that reaches it does not return (\<open>None\<close>).
\<close>

partial_function (option) halt_forever :: "sx1276_t \<Rightarrow> sx1276_t option" where
  "halt_forever dev = halt_forever dev"

text \<open>
  \<^verbatim>\<open>sx1276_set_rx_config\<close>. Expressions with a \<^verbatim>\<open>uint32_t\<close> operand are
  computed on 32 bits and cut to a byte where they are passed to
  \<^verbatim>\<open>sx1276_reg_write\<close>.
\<close>

definition sx1276_set_rx_config ::
  "sx1276_consts \<Rightarrow> sx1276_t \<Rightarrow> sx1276_radio_modems_t \<Rightarrow> 32 word \<Rightarrow> 32 word \<Rightarrow> 8 word \<Rightarrow>
   32 word \<Rightarrow> 16 word \<Rightarrow> 16 word \<Rightarrow> bool \<Rightarrow> 8 word \<Rightarrow> bool \<Rightarrow> bool \<Rightarrow> 8 word \<Rightarrow>
   bool \<Rightarrow> bool \<Rightarrow> sx1276_t option" where
  "sx1276_set_rx_config K dev modem bandwidth datarate coderate bandwidth_afc preamble_len
       symb_timeout implicit_header payload_len crc_on freq_hop_on hop_period iq_inverted
       rx_continuous =
     (let dev = sx1276_set_modem K dev modem
      in case modem of
           MODEM_FSK \<Rightarrow> Some dev
         | MODEM_OTHER n \<Rightarrow> Some dev
         | MODEM_LORA \<Rightarrow>
             if bandwidth > 2 then halt_forever dev
             else Some
              (let bandwidth = bandwidth + 7;
                   dev = dev\<lparr>lora_bandwidth := bandwidth,
                             lora_datarate := datarate,
                             lora_coderate := coderate,
                             lora_preamble_len := preamble_len,
                             lora_implicit_header := implicit_header,
                             lora_payload_len := payload_len,
                             lora_crc_on := crc_on,
                             lora_freq_hop_on := freq_hop_on,
                             lora_hop_period := hop_period,
                             lora_iq_inverted := iq_inverted,
                             lora_rx_continuous := rx_continuous\<rparr>;
                   datarate = (if datarate > 12 then 12
                               else if datarate < 6 then 6 else datarate);
                   dev = (if (bandwidth = 7 \<and> (datarate = 11 \<or> datarate = 12))
                             \<or> (bandwidth = 8 \<and> datarate = 12)
                          then dev\<lparr>lora_low_datarate_optimize := 0x01\<rparr>
                          else dev\<lparr>lora_low_datarate_optimize := 0x00\<rparr>);
                   (r, dev) = sx1276_reg_read dev (REG_LR_MODEMCONFIG1 K);
                   dev = sx1276_reg_write K dev (REG_LR_MODEMCONFIG1 K)
                           (ucast (ucast (r AND RFLR_MODEMCONFIG1_BW_MASK K
                                           AND RFLR_MODEMCONFIG1_CODINGRATE_MASK K
                                           AND RFLR_MODEMCONFIG1_IMPLICITHEADER_MASK K)
                                   OR push_bit 4 bandwidth
                                   OR push_bit 1 (ucast coderate)
                                   OR of_bool implicit_header :: 32 word));
                   (r, dev) = sx1276_reg_read dev (REG_LR_MODEMCONFIG2 K);
                   dev = sx1276_reg_write K dev (REG_LR_MODEMCONFIG2 K)
                           (ucast (ucast (r AND RFLR_MODEMCONFIG2_SF_MASK K
                                           AND RFLR_MODEMCONFIG2_RXPAYLOADCRC_MASK K
                                           AND RFLR_MODEMCONFIG2_SYMBTIMEOUTMSB_MASK K)
                                   OR push_bit 4 datarate
                                   OR push_bit 2 (of_bool crc_on)
                                   OR (ucast (drop_bit 8 symb_timeout)
                                       AND NOT (ucast (RFLR_MODEMCONFIG2_SYMBTIMEOUTMSB_MASK K)))
                                   :: 32 word));
                   (r, dev) = sx1276_reg_read dev (REG_LR_MODEMCONFIG3 K);
                   dev = sx1276_reg_write K dev (REG_LR_MODEMCONFIG3 K)
                           ((r AND RFLR_MODEMCONFIG3_LOWDATARATEOPTIMIZE_MASK K)
                            OR push_bit 3 (lora_low_datarate_optimize dev));
                   dev = sx1276_reg_write K dev (REG_LR_SYMBTIMEOUTLSB K)
                           (ucast (symb_timeout AND 0xFF));
                   dev = sx1276_reg_write K dev (REG_LR_PREAMBLEMSB K)
                           (ucast (drop_bit 8 preamble_len AND 0xFF));
                   dev = sx1276_reg_write K dev (REG_LR_PREAMBLELSB K)
                           (ucast (preamble_len AND 0xFF));
                   dev = (if \<not> implicit_header
                          then sx1276_reg_write K dev (REG_LR_PAYLOADLENGTH K) payload_len
                          else dev);
                   dev = (if lora_freq_hop_on dev then
                            let (r, dev) = sx1276_reg_read dev (REG_LR_PLLHOP K);
                                dev = sx1276_reg_write K dev (REG_LR_PLLHOP K)
                                        ((r AND RFLR_PLLHOP_FASTHOP_MASK K)
                                         OR RFLR_PLLHOP_FASTHOP_ON K)
                            in sx1276_reg_write K dev (REG_LR_HOPPERIOD K) (lora_hop_period dev)
                          else dev);
                   dev = (if bandwidth = 9 \<and> RF_MID_BAND_THRESH K \<noteq> 0 then
                            let dev = sx1276_reg_write K dev (REG_LR_TEST36 K) 0x02
                            in sx1276_reg_write K dev (REG_LR_TEST3A K) 0x64
                          else if bandwidth = 9 then
                            let dev = sx1276_reg_write K dev (REG_LR_TEST36 K) 0x02
                            in sx1276_reg_write K dev (REG_LR_TEST3A K) 0x7F
                          else sx1276_reg_write K dev (REG_LR_TEST36 K) 0x03)
               in if datarate = 6 then
                    let (r, dev) = sx1276_reg_read dev (REG_LR_DETECTOPTIMIZE K);
                        dev = sx1276_reg_write K dev (REG_LR_DETECTOPTIMIZE K)
                                ((r AND RFLR_DETECTIONOPTIMIZE_MASK K)
                                 OR RFLR_DETECTIONOPTIMIZE_SF6 K)
                    in sx1276_reg_write K dev (REG_LR_DETECTIONTHRESHOLD K)
                         (RFLR_DETECTIONTHRESH_SF6 K)
                  else
                    let dev = sx1276_reg_write K dev (REG_LR_DETECTOPTIMIZE K)
                                (RFLR_DETECTIONOPTIMIZE_SF7_TO_SF12 K)
                    in sx1276_reg_write K dev (REG_LR_DETECTIONTHRESHOLD K)
                         (RFLR_DETECTIONTHRESH_SF7_TO_SF12 K)))"

text \<open>\<^verbatim>\<open>sx1276_get_pa_select\<close>.\<close>

definition sx1276_get_pa_select :: "sx1276_consts \<Rightarrow> 32 word \<Rightarrow> 8 word" where
  "sx1276_get_pa_select K channel =
     (if channel < RF_MID_BAND_THRESH K then RF_PACONFIG_PASELECT_PABOOST K
      else RF_PACONFIG_PASELECT_RFO K)"

text \<open>
  The power-amplifier part of \<^verbatim>\<open>sx1276_set_tx_config\<close> (up to the two
  register writes). The \<^verbatim>\<open>int8_t power\<close> is \<open>pwr\<close>, read with \<open>sint\<close>.
  In the first assignment \<^verbatim>\<open><<\<close> binds tighter than \<^verbatim>\<open>|\<close>, the operands are
  promoted to \<^verbatim>\<open>int\<close>, and the assignment to the \<^verbatim>\<open>uint8_t pa_config\<close>
  keeps the low byte.
\<close>

definition set_tx_power :: "sx1276_consts \<Rightarrow> sx1276_t \<Rightarrow> 8 word \<Rightarrow> sx1276_t" where
  "set_tx_power K dev pwr =
     (let (pa_config, dev) = sx1276_reg_read dev (REG_PACONFIG K);
          (pa_dac, dev) = sx1276_reg_read dev (REG_PADAC K);
          pa_config = ucast (ucast (pa_config AND RF_PACONFIG_PASELECT_MASK K)
                             OR push_bit 7 (ucast (sx1276_get_pa_select K (settings_channel dev)))
                             :: 32 word);
          pa_config = (pa_config AND RF_PACONFIG_MAX_POWER_MASK K) OR push_bit 4 0x05;
          dev = sx1276_reg_write K dev (REG_PARAMP K) (RF_PARAMP_0050_US K);
          (pa_config, pa_dac) =
            (if pa_config AND RF_PACONFIG_PASELECT_PABOOST K = RF_PACONFIG_PASELECT_PABOOST K
             then
               let pa_dac = (if sint pwr > 17
                             then (pa_dac AND RF_PADAC_20DBM_MASK K) OR RF_PADAC_20DBM_ON K
                             else (pa_dac AND RF_PADAC_20DBM_MASK K) OR RF_PADAC_20DBM_OFF K)
               in if pa_dac AND RF_PADAC_20DBM_ON K = RF_PADAC_20DBM_ON K then
                    let pwr = (if sint pwr < 5 then 5 else pwr);
                        pwr = (if sint pwr > 20 then 20 else pwr)
                    in ((pa_config AND RF_PACONFIG_OUTPUTPOWER_MASK K)
                        OR ucast ((word_of_int (sint pwr - 5) :: 16 word) AND 0x0F), pa_dac)
                  else
                    let pwr = (if sint pwr < 2 then 2 else pwr);
                        pwr = (if sint pwr > 17 then 17 else pwr)
                    in ((pa_config AND RF_PACONFIG_OUTPUTPOWER_MASK K)
                        OR ucast ((word_of_int (sint pwr - 2) :: 16 word) AND 0x0F), pa_dac)
             else
               let pwr = (if sint pwr < - 1 then - 1 else pwr);
                   pwr = (if sint pwr > 14 then 14 else pwr)
               in ((pa_config AND RF_PACONFIG_OUTPUTPOWER_MASK K)
                   OR ucast ((word_of_int (sint pwr + 1) :: 16 word) AND 0x0F), pa_dac));
          dev = sx1276_reg_write K dev (REG_PACONFIG K) pa_config
      in sx1276_reg_write K dev (REG_PADAC K) pa_dac)"

text \<open>\<^verbatim>\<open>sx1276_set_tx_config\<close>.\<close>

definition sx1276_set_tx_config ::
  "sx1276_consts \<Rightarrow> sx1276_t \<Rightarrow> sx1276_radio_modems_t \<Rightarrow> 8 word \<Rightarrow> 32 word \<Rightarrow> 32 word \<Rightarrow>
   32 word \<Rightarrow> 8 word \<Rightarrow> 16 word \<Rightarrow> bool \<Rightarrow> bool \<Rightarrow> bool \<Rightarrow> 8 word \<Rightarrow> bool \<Rightarrow> 32 word \<Rightarrow>
   sx1276_t option" where
  "sx1276_set_tx_config K dev modem pwr fdev bandwidth datarate coderate preamble_len
       implicit_header crc_on freq_hop_on hop_period iq_inverted timeout =
     (let dev = sx1276_set_modem K dev modem;
          dev = set_tx_power K dev pwr
      in case modem of
           MODEM_FSK \<Rightarrow> Some dev
         | MODEM_OTHER n \<Rightarrow> Some dev
         | MODEM_LORA \<Rightarrow>
             if bandwidth > 2 then halt_forever dev
             else Some
              (let bandwidth = bandwidth + 7;
                   dev = dev\<lparr>lora_bandwidth := bandwidth,
                             lora_datarate := datarate,
                             lora_coderate := coderate,
                             lora_preamble_len := preamble_len,
                             lora_implicit_header := implicit_header,
                             lora_crc_on := crc_on,
                             lora_freq_hop_on := freq_hop_on,
                             lora_hop_period := hop_period,
                             lora_iq_inverted := iq_inverted,
                             lora_tx_timeout := timeout\<rparr>;
                   datarate = (if datarate > 12 then 12
                               else if datarate < 6 then 6 else datarate);
                   dev = (if (bandwidth = 7 \<and> (datarate = 11 \<or> datarate = 12))
                             \<or> (bandwidth = 8 \<and> datarate = 12)
                          then dev\<lparr>lora_low_datarate_optimize := 0x01\<rparr>
                          else dev\<lparr>lora_low_datarate_optimize := 0x00\<rparr>);
                   (r, dev) = sx1276_reg_read dev (REG_LR_MODEMCONFIG1 K);
                   dev = sx1276_reg_write K dev (REG_LR_MODEMCONFIG1 K)
                           (ucast (ucast (r AND RFLR_MODEMCONFIG1_BW_MASK K
                                           AND RFLR_MODEMCONFIG1_CODINGRATE_MASK K
                                           AND RFLR_MODEMCONFIG1_IMPLICITHEADER_MASK K)
                                   OR push_bit 4 bandwidth
                                   OR push_bit 1 (ucast coderate)
                                   OR of_bool implicit_header :: 32 word));
                   (r, dev) = sx1276_reg_read dev (REG_LR_MODEMCONFIG2 K);
                   dev = sx1276_reg_write K dev (REG_LR_MODEMCONFIG2 K)
                           (ucast (ucast (r AND RFLR_MODEMCONFIG2_SF_MASK K
                                           AND RFLR_MODEMCONFIG2_RXPAYLOADCRC_MASK K)
                                   OR push_bit 4 datarate
                                   OR push_bit 2 (of_bool crc_on) :: 32 word));
                   (r, dev) = sx1276_reg_read dev (REG_LR_MODEMCONFIG3 K);
                   dev = sx1276_reg_write K dev (REG_LR_MODEMCONFIG3 K)
                           ((r AND RFLR_MODEMCONFIG3_LOWDATARATEOPTIMIZE_MASK K)
                            OR push_bit 3 (lora_low_datarate_optimize dev));
                   dev = sx1276_reg_write K dev (REG_LR_PREAMBLEMSB K)
                           (ucast (drop_bit 8 preamble_len AND 0xFF));
                   dev = sx1276_reg_write K dev (REG_LR_PREAMBLELSB K)
                           (ucast (preamble_len AND 0xFF));
                   dev = (if lora_freq_hop_on dev then
                            let (r, dev) = sx1276_reg_read dev (REG_LR_PLLHOP K);
                                dev = sx1276_reg_write K dev (REG_LR_PLLHOP K)
                                        ((r AND RFLR_PLLHOP_FASTHOP_MASK K)
                                         OR RFLR_PLLHOP_FASTHOP_ON K)
                            in sx1276_reg_write K dev (REG_LR_HOPPERIOD K) (lora_hop_period dev)
                          else dev);
                   dev = (if bandwidth = 9 \<and> RF_MID_BAND_THRESH K \<noteq> 0 then
                            let dev = sx1276_reg_write K dev (REG_LR_TEST36 K) 0x02
                            in sx1276_reg_write K dev (REG_LR_TEST3A K) 0x64
                          else if bandwidth = 9 then
                            let dev = sx1276_reg_write K dev (REG_LR_TEST36 K) 0x02
                            in sx1276_reg_write K dev (REG_LR_TEST3A K) 0x7F
                          else sx1276_reg_write K dev (REG_LR_TEST36 K) 0x03)
               in if datarate = 6 then
                    let (r, dev) = sx1276_reg_read dev (REG_LR_DETECTOPTIMIZE K);
                        dev = sx1276_reg_write K dev (REG_LR_DETECTOPTIMIZE K)
                                ((r AND RFLR_DETECTIONOPTIMIZE_MASK K)
                                 OR RFLR_DETECTIONOPTIMIZE_SF6 K)
                    in sx1276_reg_write K dev (REG_LR_DETECTIONTHRESHOLD K)
                         (RFLR_DETECTIONTHRESH_SF6 K)
                  else
                    let dev = sx1276_reg_write K dev (REG_LR_DETECTOPTIMIZE K)
                                (RFLR_DETECTIONOPTIMIZE_SF7_TO_SF12 K)
                    in sx1276_reg_write K dev (REG_LR_DETECTIONTHRESHOLD K)
                         (RFLR_DETECTIONTHRESH_SF7_TO_SF12 K)))"

subsection \<open>Receive\<close>

text \<open>
  The block of \<^verbatim>\<open>sx1276_set_rx\<close> under the comment
  \<^verbatim>\<open>ERRATA 2.3 - Receiver Spurious Reception of a LoRa Signal\<close>: the
  \<^verbatim>\<open>if (dev->settings.lora.bandwidth < 9)\<close> with its switch, and the
  \<^verbatim>\<open>else\<close>. The channel argument \<^verbatim>\<open>dev->settings.channel + 7.81e3\<close>
  is a \<^verbatim>\<open>double\<close> sum converted to \<^verbatim>\<open>uint32_t\<close>; the offsets are
  whole numbers of Hz, and the sum is written here as a 32-bit addition (the
  conversion of a sum beyond \<open>2^32 - 1\<close> is undefined in C).
\<close>

definition errata_2_3 :: "sx1276_consts \<Rightarrow> sx1276_t \<Rightarrow> sx1276_t" where
  "errata_2_3 K dev =
     (if lora_bandwidth dev < 9 then
        let (r, dev) = sx1276_reg_read dev (REG_LR_DETECTOPTIMIZE K);
            dev = sx1276_reg_write K dev (REG_LR_DETECTOPTIMIZE K) (r AND 0x7F);
            dev = sx1276_reg_write K dev (REG_LR_TEST30 K) 0x00
        in if lora_bandwidth dev = 0 then
             let dev = sx1276_reg_write K dev (REG_LR_TEST2F K) 0x48
             in sx1276_set_channel K dev (settings_channel dev + 7810)
           else if lora_bandwidth dev = 1 then
             let dev = sx1276_reg_write K dev (REG_LR_TEST2F K) 0x44
             in sx1276_set_channel K dev (settings_channel dev + 10420)
           else if lora_bandwidth dev = 2 then
             let dev = sx1276_reg_write K dev (REG_LR_TEST2F K) 0x44
             in sx1276_set_channel K dev (settings_channel dev + 15620)
           else if lora_bandwidth dev = 3 then
             let dev = sx1276_reg_write K dev (REG_LR_TEST2F K) 0x44
             in sx1276_set_channel K dev (settings_channel dev + 20830)
           else if lora_bandwidth dev = 4 then
             let dev = sx1276_reg_write K dev (REG_LR_TEST2F K) 0x44
             in sx1276_set_channel K dev (settings_channel dev + 31250)
           else if lora_bandwidth dev = 5 then
             let dev = sx1276_reg_write K dev (REG_LR_TEST2F K) 0x44
             in sx1276_set_channel K dev (settings_channel dev + 41670)
           else if lora_bandwidth dev = 6 then
             sx1276_reg_write K dev (REG_LR_TEST2F K) 0x40
           else if lora_bandwidth dev = 7 then
             sx1276_reg_write K dev (REG_LR_TEST2F K) 0x40
           else if lora_bandwidth dev = 8 then
             sx1276_reg_write K dev (REG_LR_TEST2F K) 0x40
           else dev
      else
        let (r, dev) = sx1276_reg_read dev (REG_LR_DETECTOPTIMIZE K)
        in sx1276_reg_write K dev (REG_LR_DETECTOPTIMIZE K) (r OR 0x80))"

text \<open>\<^verbatim>\<open>sx1276_set_rx\<close>.\<close>

definition sx1276_set_rx :: "sx1276_consts \<Rightarrow> sx1276_t \<Rightarrow> 32 word \<Rightarrow> sx1276_t" where
  "sx1276_set_rx K dev timeout =
     (let (rx_continuous, dev) =
            (case settings_modem dev of
               MODEM_LORA \<Rightarrow>
                 let dev = (if lora_iq_inverted dev then
                              let (r, dev) = sx1276_reg_read dev (REG_LR_INVERTIQ K);
                                  dev = sx1276_reg_write K dev (REG_LR_INVERTIQ K)
                                          ((r AND RFLR_INVERTIQ_TX_MASK K AND RFLR_INVERTIQ_RX_MASK K)
                                           OR RFLR_INVERTIQ_RX_ON K OR RFLR_INVERTIQ_TX_OFF K)
                              in sx1276_reg_write K dev (REG_LR_INVERTIQ2 K) (RFLR_INVERTIQ2_ON K)
                            else
                              let (r, dev) = sx1276_reg_read dev (REG_LR_INVERTIQ K);
                                  dev = sx1276_reg_write K dev (REG_LR_INVERTIQ K)
                                          ((r AND RFLR_INVERTIQ_TX_MASK K AND RFLR_INVERTIQ_RX_MASK K)
                                           OR RFLR_INVERTIQ_RX_OFF K OR RFLR_INVERTIQ_TX_OFF K)
                              in sx1276_reg_write K dev (REG_LR_INVERTIQ2 K) (RFLR_INVERTIQ2_OFF K));
                     dev = errata_2_3 K dev;
                     rx_continuous = lora_rx_continuous dev;
                     dev = (if lora_freq_hop_on dev then
                              let dev = sx1276_reg_write K dev (REG_LR_IRQFLAGSMASK K)
                                          (RFLR_IRQFLAGS_VALIDHEADER K OR RFLR_IRQFLAGS_TXDONE K
                                           OR RFLR_IRQFLAGS_CADDONE K
                                           OR RFLR_IRQFLAGS_CADDETECTED K);
                                  (r, dev) = sx1276_reg_read dev (REG_DIOMAPPING1 K)
                              in sx1276_reg_write K dev (REG_DIOMAPPING1 K)
                                   ((r AND RFLR_DIOMAPPING1_DIO0_MASK K
                                       AND RFLR_DIOMAPPING1_DIO2_MASK K)
                                    OR RFLR_DIOMAPPING1_DIO0_00 K OR RFLR_DIOMAPPING1_DIO2_00 K)
                            else
                              let dev = sx1276_reg_write K dev (REG_LR_IRQFLAGSMASK K)
                                          (RFLR_IRQFLAGS_VALIDHEADER K OR RFLR_IRQFLAGS_TXDONE K
                                           OR RFLR_IRQFLAGS_CADDONE K
                                           OR RFLR_IRQFLAGS_FHSSCHANGEDCHANNEL K
                                           OR RFLR_IRQFLAGS_CADDETECTED K);
                                  (r, dev) = sx1276_reg_read dev (REG_DIOMAPPING1 K)
                              in sx1276_reg_write K dev (REG_DIOMAPPING1 K)
                                   ((r AND RFLR_DIOMAPPING1_DIO0_MASK K)
                                    OR RFLR_DIOMAPPING1_DIO0_00 K));
                     dev = sx1276_reg_write K dev (REG_LR_FIFORXBASEADDR K) 0
                 in (rx_continuous, sx1276_reg_write K dev (REG_LR_FIFOADDRPTR K) 0)
             | MODEM_FSK \<Rightarrow> (False, dev)
             | MODEM_OTHER n \<Rightarrow> (False, dev));
          dev = sx1276_set_status dev RF_RX_RUNNING;
          dev = (if timeout \<noteq> 0 then xtimer_set dev rx_timeout_timer timeout else dev)
      in if rx_continuous then sx1276_set_op_mode K dev (RFLR_OPMODE_RECEIVER K)
         else sx1276_set_op_mode K dev (RFLR_OPMODE_RECEIVER_SINGLE K))"

text \<open>
  The two parts of the LoRa branch of \<^verbatim>\<open>sx1276_set_rx\<close> around the erratum
  block, with the end of the function, written out on their own so that a
  property of the whole function can name the state the erratum block starts
  from and what follows it: \<open>set_rx_iq\<close> is the IQ-inversion
  \<^verbatim>\<open>if\<close>/\<^verbatim>\<open>else\<close>, \<open>set_rx_arm\<close> is everything after the block
  (interrupt mask and line mapping, FIFO pointers, state, timer, operating mode).
\<close>

definition set_rx_iq :: "sx1276_consts \<Rightarrow> sx1276_t \<Rightarrow> sx1276_t" where
  "set_rx_iq K dev =
     (if lora_iq_inverted dev then
        let (r, dev) = sx1276_reg_read dev (REG_LR_INVERTIQ K);
            dev = sx1276_reg_write K dev (REG_LR_INVERTIQ K)
                    ((r AND RFLR_INVERTIQ_TX_MASK K AND RFLR_INVERTIQ_RX_MASK K)
                     OR RFLR_INVERTIQ_RX_ON K OR RFLR_INVERTIQ_TX_OFF K)
        in sx1276_reg_write K dev (REG_LR_INVERTIQ2 K) (RFLR_INVERTIQ2_ON K)
      else
        let (r, dev) = sx1276_reg_read dev (REG_LR_INVERTIQ K);
            dev = sx1276_reg_write K dev (REG_LR_INVERTIQ K)
                    ((r AND RFLR_INVERTIQ_TX_MASK K AND RFLR_INVERTIQ_RX_MASK K)
                     OR RFLR_INVERTIQ_RX_OFF K OR RFLR_INVERTIQ_TX_OFF K)
        in sx1276_reg_write K dev (REG_LR_INVERTIQ2 K) (RFLR_INVERTIQ2_OFF K))"

definition set_rx_arm :: "sx1276_consts \<Rightarrow> sx1276_t \<Rightarrow> 32 word \<Rightarrow> sx1276_t" where
  "set_rx_arm K dev timeout =
     (let rx_continuous = lora_rx_continuous dev;
          dev = (if lora_freq_hop_on dev then
                   let dev = sx1276_reg_write K dev (REG_LR_IRQFLAGSMASK K)
                               (RFLR_IRQFLAGS_VALIDHEADER K OR RFLR_IRQFLAGS_TXDONE K
                                OR RFLR_IRQFLAGS_CADDONE K
                                OR RFLR_IRQFLAGS_CADDETECTED K);
                       (r, dev) = sx1276_reg_read dev (REG_DIOMAPPING1 K)
                   in sx1276_reg_write K dev (REG_DIOMAPPING1 K)
                        ((r AND RFLR_DIOMAPPING1_DIO0_MASK K
                            AND RFLR_DIOMAPPING1_DIO2_MASK K)
                         OR RFLR_DIOMAPPING1_DIO0_00 K OR RFLR_DIOMAPPING1_DIO2_00 K)
                 else
                   let dev = sx1276_reg_write K dev (REG_LR_IRQFLAGSMASK K)
                               (RFLR_IRQFLAGS_VALIDHEADER K OR RFLR_IRQFLAGS_TXDONE K
                                OR RFLR_IRQFLAGS_CADDONE K
                                OR RFLR_IRQFLAGS_FHSSCHANGEDCHANNEL K
                                OR RFLR_IRQFLAGS_CADDETECTED K);
                       (r, dev) = sx1276_reg_read dev (REG_DIOMAPPING1 K)
                   in sx1276_reg_write K dev (REG_DIOMAPPING1 K)
                        ((r AND RFLR_DIOMAPPING1_DIO0_MASK K)
                         OR RFLR_DIOMAPPING1_DIO0_00 K));
          dev = sx1276_reg_write K dev (REG_LR_FIFORXBASEADDR K) 0;
          dev = sx1276_reg_write K dev (REG_LR_FIFOADDRPTR K) 0;
          dev = sx1276_set_status dev RF_RX_RUNNING;
          dev = (if timeout \<noteq> 0 then xtimer_set dev rx_timeout_timer timeout else dev)
      in if rx_continuous then sx1276_set_op_mode K dev (RFLR_OPMODE_RECEIVER K)
         else sx1276_set_op_mode K dev (RFLR_OPMODE_RECEIVER_SINGLE K))"

subsection \<open>Signal strength\<close>

definition RSSI_OFFSET_LF :: int where
  "RSSI_OFFSET_LF = - 164"

definition RSSI_OFFSET_HF :: int where
  "RSSI_OFFSET_HF = - 157"

text \<open>
  \<^verbatim>\<open>sx1276_read_rssi\<close>: the \<^verbatim>\<open>int16_t\<close> result and the device. The
  arithmetic is done on \<^verbatim>\<open>int\<close> in C and stored to 16 bits.
\<close>

definition sx1276_read_rssi :: "sx1276_consts \<Rightarrow> sx1276_t \<Rightarrow> 16 word \<times> sx1276_t" where
  "sx1276_read_rssi K dev =
     (case settings_modem dev of
        MODEM_FSK \<Rightarrow>
          let (r, dev) = sx1276_reg_read dev (REG_RSSIVALUE K)
          in (word_of_int (- uint (drop_bit 1 r)), dev)
      | MODEM_LORA \<Rightarrow>
          if settings_channel dev > RF_MID_BAND_THRESH K then
            let (r, dev) = sx1276_reg_read dev (REG_LR_RSSIVALUE K)
            in (word_of_int (RSSI_OFFSET_HF + uint r), dev)
          else
            let (r, dev) = sx1276_reg_read dev (REG_LR_RSSIVALUE K)
            in (word_of_int (RSSI_OFFSET_LF + uint r), dev)
      | MODEM_OTHER n \<Rightarrow> (- 1, dev))"

subsection \<open>Interrupt-line handlers\<close>

text \<open>
  \<^verbatim>\<open>sx1276_on_dio0\<close>. \<open>malloc_ok\<close> says whether \<^verbatim>\<open>malloc\<close> finds
  memory for the packet; when it does not the handler stops in
  \<^verbatim>\<open>__BKPT(1)\<close>. \<open>snr\<close> is the local \<^verbatim>\<open>int8_t\<close>, \<open>rssi\<close> the local
  \<^verbatim>\<open>int16_t\<close> (a register byte, so \<open>0 .. 255\<close>).
\<close>

definition sx1276_on_dio0 :: "sx1276_consts \<Rightarrow> bool \<Rightarrow> sx1276_t \<Rightarrow> fault + sx1276_t" where
  "sx1276_on_dio0 K malloc_ok dev =
     (case settings_state dev of
        RF_RX_RUNNING \<Rightarrow>
          (case settings_modem dev of
             MODEM_LORA \<Rightarrow>
               let dev = sx1276_reg_write K dev (REG_LR_IRQFLAGS K) (RFLR_IRQFLAGS_RXDONE K);
                   (irq_flags, dev) = sx1276_reg_read dev (REG_LR_IRQFLAGS K)
               in if irq_flags AND RFLR_IRQFLAGS_PAYLOADCRCERROR_MASK K
                       = RFLR_IRQFLAGS_PAYLOADCRCERROR K then
                    let dev = sx1276_reg_write K dev (REG_LR_IRQFLAGS K)
                                (RFLR_IRQFLAGS_PAYLOADCRCERROR K);
                        dev = (if \<not> lora_rx_continuous dev
                               then sx1276_set_status dev RF_IDLE else dev);
                        dev = xtimer_remove dev rx_timeout_timer
                    in Inr (send_event dev RX_ERROR (Text ''CRC error''))
                  else
                    let (snr_raw, dev) = sx1276_reg_read dev (REG_LR_PKTSNRVALUE K);
                        snr = (if snr_raw AND 0x80 \<noteq> 0
                               then - drop_bit 2 ((NOT snr_raw + 1) AND 0xFF)
                               else drop_bit 2 (snr_raw AND 0xFF));
                        (rssi, dev) = sx1276_reg_read dev (REG_LR_PKTRSSIVALUE K);
                        rssi_val =
                          (if sint snr < 0 then
                             if settings_channel dev > RF_MID_BAND_THRESH K
                             then RSSI_OFFSET_HF + uint rssi + uint (drop_bit 4 rssi) + sint snr
                             else RSSI_OFFSET_LF + uint rssi + uint (drop_bit 4 rssi) + sint snr
                           else
                             if settings_channel dev > RF_MID_BAND_THRESH K
                             then RSSI_OFFSET_HF + uint rssi + uint (drop_bit 4 rssi)
                             else RSSI_OFFSET_LF + uint rssi + uint (drop_bit 4 rssi));
                        (sz, dev) = sx1276_reg_read dev (REG_LR_RXNBBYTES K);
                        dev = (if \<not> lora_rx_continuous dev
                               then sx1276_set_status dev RF_IDLE else dev);
                        dev = xtimer_remove dev rx_timeout_timer
                    in if \<not> malloc_ok then Inl OutOfMemory
                       else
                         let (last_rx_addr, dev) =
                               sx1276_reg_read dev (REG_LR_FIFORXCURRENTADDR K);
                             dev = sx1276_reg_write K dev (REG_LR_FIFOADDRPTR K) last_rx_addr;
                             (buf, dev) = sx1276_read_fifo K dev sz
                         in Inr (send_event dev RX_DONE
                                   (Packet \<lparr>snr_value = snr_raw,
                                            rssi_value = word_of_int rssi_val,
                                            pkt_size = sz,
                                            content = buf\<rparr>))
           | MODEM_FSK \<Rightarrow> Inr dev
           | MODEM_OTHER n \<Rightarrow> Inr dev)
      | RF_TX_RUNNING \<Rightarrow>
          let dev = xtimer_remove dev tx_timeout_timer;
              dev = sx1276_reg_write K dev (REG_LR_IRQFLAGS K) (RFLR_IRQFLAGS_TXDONE K);
              dev = sx1276_set_status dev RF_IDLE
          in Inr (send_event dev TX_DONE Null)
      | RF_IDLE \<Rightarrow> Inr dev
      | RF_CAD \<Rightarrow> Inr dev)"

text \<open>\<^verbatim>\<open>sx1276_on_dio3\<close>.\<close>

definition sx1276_on_dio3 :: "sx1276_consts \<Rightarrow> sx1276_t \<Rightarrow> sx1276_t" where
  "sx1276_on_dio3 K dev =
     (case settings_modem dev of
        MODEM_FSK \<Rightarrow> dev
      | MODEM_LORA \<Rightarrow>
          let dev = sx1276_reg_write K dev (REG_LR_IRQFLAGS K)
                      (RFLR_IRQFLAGS_CADDETECTED K OR RFLR_IRQFLAGS_CADDONE K);
              (r, dev) = sx1276_reg_read dev (REG_LR_IRQFLAGS K);
              result = (r AND RFLR_IRQFLAGS_CADDETECTED K = RFLR_IRQFLAGS_CADDETECTED K)
          in send_event dev CAD_DONE (Flag result)
      | MODEM_OTHER n \<Rightarrow> dev)"

subsection \<open>A device to evaluate the driver on\<close>

text \<open>
  A device right after power-up as far as the driver can tell: every register
  and every setting zero, nothing traced yet.
\<close>

definition dev0 :: sx1276_t where
  "dev0 = \<lparr>settings_modem = MODEM_LORA, settings_state = RF_IDLE, settings_channel = 0,
           lora_bandwidth = 0, lora_datarate = 0, lora_coderate = 0, lora_preamble_len = 0,
           lora_implicit_header = False, lora_payload_len = 0, lora_crc_on = False,
           lora_freq_hop_on = False, lora_hop_period = 0, lora_iq_inverted = False,
           lora_rx_continuous = False, lora_tx_timeout = 0, lora_low_datarate_optimize = 0,
           regs = (\<lambda>_. 0), fifo = (\<lambda>_. 0), trace = []\<rparr>"

subsection \<open>Reading a trace\<close>

text \<open>The bytes written to one register address, in the order of the writes.\<close>

primrec writes_to :: "8 word \<Rightarrow> effect list \<Rightarrow> 8 word list" where
  "writes_to a [] = []"
| "writes_to a (e # es) =
     (case e of
        RegWrite b v \<Rightarrow> if b = a then v # writes_to a es else writes_to a es
      | _ \<Rightarrow> writes_to a es)"

text \<open>The events sent to the application, in order.\<close>

primrec events_of :: "effect list \<Rightarrow> (sx1276_event_type_t \<times> event_data) list" where
  "events_of [] = []"
| "events_of (e # es) =
     (case e of SendEvent t d \<Rightarrow> (t, d) # events_of es | _ \<Rightarrow> events_of es)"

text \<open>The signal strength of the packet, when the last effect is an \<open>RX_DONE\<close> event.\<close>

definition last_rx_rssi :: "effect list \<Rightarrow> int option" where
  "last_rx_rssi tr =
     (case rev tr of
        SendEvent RX_DONE (Packet p) # _ \<Rightarrow> Some (sint (rssi_value p))
      | _ \<Rightarrow> None)"

subsection \<open>The specification's formulas\<close>

text \<open>
  Section 4.6 of the specification, signal-to-noise ratio: "raw byte's high bit
  set: negative value, magnitude = ((~raw+1)&0xFF)>>2, negated; else magnitude =
  (raw&0xFF)>>2".
\<close>

definition spec_snr :: "8 word \<Rightarrow> int" where
  "spec_snr raw = (if bit raw 7 then - ((- uint raw) mod 256 div 4) else uint raw div 4)"

text \<open>
  Section 4.6, signal strength: "bandOffset + raw + (raw>>4) + (snr<0 ? snr : 0),
  where bandOffset = -157 if channel >= mid-band threshold else -164".
\<close>

definition spec_rssi :: "sx1276_consts \<Rightarrow> 32 word \<Rightarrow> 8 word \<Rightarrow> int \<Rightarrow> int" where
  "spec_rssi K channel raw snr =
     (if channel \<ge> RF_MID_BAND_THRESH K then - 157 else - 164)
     + uint raw + uint raw div 16 + (if snr < 0 then snr else 0)"

text \<open>The band offset as the driver selects it: the threshold itself is low band.\<close>

definition band_offset :: "sx1276_consts \<Rightarrow> 32 word \<Rightarrow> int" where
  "band_offset K channel = (if channel > RF_MID_BAND_THRESH K then - 157 else - 164)"

text \<open>
  Section 4.3: "raw synthesizer ticks = round(freqHz / stepHz)", to the nearest
  integer; and the same quotient cut off below.
\<close>

definition spec_round_ticks :: "sx1276_consts \<Rightarrow> 32 word \<Rightarrow> nat" where
  "spec_round_ticks K freq =
     (2 * unat freq * FREQ_STEP_DEN K + FREQ_STEP_NUM K) div (2 * FREQ_STEP_NUM K)"

definition floor_ticks :: "sx1276_consts \<Rightarrow> 32 word \<Rightarrow> nat" where
  "floor_ticks K freq = unat freq * FREQ_STEP_DEN K div FREQ_STEP_NUM K"

text \<open>
  The table of erratum 2.3 as the driver has it: the test-register value of each
  bandwidth code below 9, and the channel offset in Hz of those that have one.
\<close>

definition errata_2_3_value :: "32 word \<Rightarrow> 8 word" where
  "errata_2_3_value bw = (if bw = 0 then 0x48 else if bw \<le> 5 then 0x44 else 0x40)"

definition errata_2_3_offset :: "32 word \<Rightarrow> 32 word option" where
  "errata_2_3_offset bw =
     (if bw = 0 then Some 7810 else if bw = 1 then Some 10420
      else if bw = 2 then Some 15620 else if bw = 3 then Some 20830
      else if bw = 4 then Some 31250 else if bw = 5 then Some 41670 else None)"

text \<open>
  The bandwidth codes below 9 (code 9 is 500 kHz), and among them those for which
  \<^verbatim>\<open>sx1276_set_rx\<close>, run on the LoRa device \<open>dev0\<close> with that code,
  writes the frequency registers and those for which it leaves them alone.
\<close>

definition bandwidth_codes :: "32 word list" where
  "bandwidth_codes = [0, 1, 2, 3, 4, 5, 6, 7, 8]"

definition codes_with_offset :: "32 word list" where
  "codes_with_offset =
     filter (\<lambda>b. writes_to (REG_FRFMSB datasheet)
                   (trace (sx1276_set_rx datasheet (dev0\<lparr>lora_bandwidth := b\<rparr>) 0)) \<noteq> [])
       bandwidth_codes"

definition codes_without_offset :: "32 word list" where
  "codes_without_offset =
     filter (\<lambda>b. writes_to (REG_FRFMSB datasheet)
                   (trace (sx1276_set_rx datasheet (dev0\<lparr>lora_bandwidth := b\<rparr>) 0)) = [])
       bandwidth_codes"

text \<open>
  Section 4.3: "clamps datarate to [6,12]; sets lowDatarateOptimize = true iff
  (bandwidth=125kHz and datarate in {11,12}) or (bandwidth=250kHz and datarate=12)",
  on the bandwidth code (0 is 125 kHz, 1 is 250 kHz).
\<close>

definition clamp_datarate :: "32 word \<Rightarrow> 32 word" where
  "clamp_datarate datarate = (if datarate > 12 then 12 else if datarate < 6 then 6 else datarate)"

definition spec_low_datarate_optimize :: "32 word \<Rightarrow> 32 word \<Rightarrow> bool" where
  "spec_low_datarate_optimize bandwidth datarate =
     ((bandwidth = 0 \<and> (datarate = 11 \<or> datarate = 12)) \<or> (bandwidth = 1 \<and> datarate = 12))"

text \<open>
  A LoRa device in reception whose chip holds a packet: SNR register \<open>0x04\<close>,
  packet RSSI register 100, current RSSI register 100, channel 0 Hz (low band).
\<close>

definition rx_dev :: sx1276_t where
  "rx_dev = dev0\<lparr>settings_state := RF_RX_RUNNING,
                   regs := (regs dev0)(0x19 := 0x04, 0x1A := 100, 0x1B := 100)\<rparr>"

section \<open>Properties\<close>

subsection \<open>Evaluation and word arithmetic\<close>

lemmas prim_defs = sx1276_reg_read_def sx1276_reg_write_def emit_def chip_write_def chip_reg_def
  reg_index_def sx1276_board_set_ant_sw_low_power_def sx1276_board_set_ant_sw_def
  xtimer_usleep_def xtimer_set_def xtimer_remove_def send_event_def sx1276_set_status_def

lemma datasheet_simps:
  "REG_OPMODE datasheet = 0x01"
  "REG_FRFMSB datasheet = 0x06"
  "REG_FRFMID datasheet = 0x07"
  "REG_FRFLSB datasheet = 0x08"
  "REG_PACONFIG datasheet = 0x09"
  "REG_PARAMP datasheet = 0x0A"
  "REG_PADAC datasheet = 0x4D"
  "REG_DIOMAPPING1 datasheet = 0x40"
  "REG_DIOMAPPING2 datasheet = 0x41"
  "REG_RSSIVALUE datasheet = 0x11"
  "REG_LR_FIFOADDRPTR datasheet = 0x0D"
  "REG_LR_FIFORXBASEADDR datasheet = 0x0F"
  "REG_LR_FIFORXCURRENTADDR datasheet = 0x10"
  "REG_LR_IRQFLAGSMASK datasheet = 0x11"
  "REG_LR_IRQFLAGS datasheet = 0x12"
  "REG_LR_RXNBBYTES datasheet = 0x13"
  "REG_LR_PKTSNRVALUE datasheet = 0x19"
  "REG_LR_PKTRSSIVALUE datasheet = 0x1A"
  "REG_LR_RSSIVALUE datasheet = 0x1B"
  "REG_LR_HOPCHANNEL datasheet = 0x1C"
  "REG_LR_MODEMCONFIG1 datasheet = 0x1D"
  "REG_LR_MODEMCONFIG2 datasheet = 0x1E"
  "REG_LR_MODEMCONFIG3 datasheet = 0x26"
  "REG_LR_SYMBTIMEOUTLSB datasheet = 0x1F"
  "REG_LR_PREAMBLEMSB datasheet = 0x20"
  "REG_LR_PREAMBLELSB datasheet = 0x21"
  "REG_LR_PAYLOADLENGTH datasheet = 0x22"
  "REG_LR_HOPPERIOD datasheet = 0x24"
  "REG_LR_PLLHOP datasheet = 0x44"
  "REG_LR_DETECTOPTIMIZE datasheet = 0x31"
  "REG_LR_DETECTIONTHRESHOLD datasheet = 0x37"
  "REG_LR_INVERTIQ datasheet = 0x33"
  "REG_LR_INVERTIQ2 datasheet = 0x3B"
  "REG_LR_TEST2F datasheet = 0x2F"
  "REG_LR_TEST30 datasheet = 0x30"
  "REG_LR_TEST36 datasheet = 0x36"
  "REG_LR_TEST3A datasheet = 0x3A"
  "RF_OPMODE_MASK datasheet = 0xF8"
  "RF_OPMODE_SLEEP datasheet = 0x00"
  "RF_OPMODE_STANDBY datasheet = 0x01"
  "RF_OPMODE_TRANSMITTER datasheet = 0x03"
  "RFLR_OPMODE_RECEIVER datasheet = 0x05"
  "RFLR_OPMODE_RECEIVER_SINGLE datasheet = 0x06"
  "RFLR_OPMODE_LONGRANGEMODE_MASK datasheet = 0x7F"
  "RFLR_OPMODE_LONGRANGEMODE_ON datasheet = 0x80"
  "RFLR_OPMODE_LONGRANGEMODE_OFF datasheet = 0x00"
  "RF_PACONFIG_PASELECT_MASK datasheet = 0x7F"
  "RF_PACONFIG_PASELECT_PABOOST datasheet = 0x80"
  "RF_PACONFIG_PASELECT_RFO datasheet = 0x00"
  "RF_PACONFIG_MAX_POWER_MASK datasheet = 0x8F"
  "RF_PACONFIG_OUTPUTPOWER_MASK datasheet = 0xF0"
  "RF_PADAC_20DBM_MASK datasheet = 0xF8"
  "RF_PADAC_20DBM_ON datasheet = 0x07"
  "RF_PADAC_20DBM_OFF datasheet = 0x04"
  "RF_PARAMP_0050_US datasheet = 0x08"
  "RFLR_MODEMCONFIG1_BW_MASK datasheet = 0x0F"
  "RFLR_MODEMCONFIG1_CODINGRATE_MASK datasheet = 0xF1"
  "RFLR_MODEMCONFIG1_IMPLICITHEADER_MASK datasheet = 0xFE"
  "RFLR_MODEMCONFIG2_SF_MASK datasheet = 0x0F"
  "RFLR_MODEMCONFIG2_RXPAYLOADCRC_MASK datasheet = 0xFB"
  "RFLR_MODEMCONFIG2_SYMBTIMEOUTMSB_MASK datasheet = 0xFC"
  "RFLR_MODEMCONFIG3_LOWDATARATEOPTIMIZE_MASK datasheet = 0xF7"
  "RFLR_PLLHOP_FASTHOP_MASK datasheet = 0x7F"
  "RFLR_PLLHOP_FASTHOP_ON datasheet = 0x80"
  "RFLR_DETECTIONOPTIMIZE_MASK datasheet = 0xF8"
  "RFLR_DETECTIONOPTIMIZE_SF6 datasheet = 0x05"
  "RFLR_DETECTIONOPTIMIZE_SF7_TO_SF12 datasheet = 0x03"
  "RFLR_DETECTIONTHRESH_SF6 datasheet = 0x0C"
  "RFLR_DETECTIONTHRESH_SF7_TO_SF12 datasheet = 0x0A"
  "RFLR_INVERTIQ_RX_MASK datasheet = 0xBF"
  "RFLR_INVERTIQ_RX_ON datasheet = 0x40"
  "RFLR_INVERTIQ_RX_OFF datasheet = 0x00"
  "RFLR_INVERTIQ_TX_MASK datasheet = 0xFE"
  "RFLR_INVERTIQ_TX_OFF datasheet = 0x01"
  "RFLR_INVERTIQ2_ON datasheet = 0x19"
  "RFLR_INVERTIQ2_OFF datasheet = 0x1D"
  "RFLR_DIOMAPPING1_DIO0_MASK datasheet = 0x3F"
  "RFLR_DIOMAPPING1_DIO0_00 datasheet = 0x00"
  "RFLR_DIOMAPPING1_DIO2_MASK datasheet = 0xF3"
  "RFLR_DIOMAPPING1_DIO2_00 datasheet = 0x00"
  "RFLR_IRQFLAGS_RXDONE datasheet = 0x40"
  "RFLR_IRQFLAGS_PAYLOADCRCERROR datasheet = 0x20"
  "RFLR_IRQFLAGS_PAYLOADCRCERROR_MASK datasheet = 0x20"
  "RFLR_IRQFLAGS_VALIDHEADER datasheet = 0x10"
  "RFLR_IRQFLAGS_TXDONE datasheet = 0x08"
  "RFLR_IRQFLAGS_CADDONE datasheet = 0x04"
  "RFLR_IRQFLAGS_FHSSCHANGEDCHANNEL datasheet = 0x02"
  "RFLR_IRQFLAGS_CADDETECTED datasheet = 0x01"
  "RF_MID_BAND_THRESH datasheet = 525000000"
  "FREQ_STEP_NUM datasheet = 15625"
  "FREQ_STEP_DEN datasheet = 256"
  by (simp_all add: datasheet_def)

lemma dev0_simps:
  "settings_modem dev0 = MODEM_LORA"
  "settings_state dev0 = RF_IDLE"
  "settings_channel dev0 = 0"
  "lora_bandwidth dev0 = 0"
  "lora_datarate dev0 = 0"
  "lora_coderate dev0 = 0"
  "lora_preamble_len dev0 = 0"
  "lora_implicit_header dev0 = False"
  "lora_payload_len dev0 = 0"
  "lora_crc_on dev0 = False"
  "lora_freq_hop_on dev0 = False"
  "lora_hop_period dev0 = 0"
  "lora_iq_inverted dev0 = False"
  "lora_rx_continuous dev0 = False"
  "lora_tx_timeout dev0 = 0"
  "lora_low_datarate_optimize dev0 = 0"
  "regs dev0 = (\<lambda>_. 0)"
  "fifo dev0 = (\<lambda>_. 0)"
  "trace dev0 = []"
  by (simp_all add: dev0_def)

lemma halt_forever_None: "halt_forever dev = None"
proof -
  have "False" if "halt_forever dev = Some y" for y
    using that by (rule halt_forever.raw_induct[where P="\<lambda>_ _. False", rotated]) blast
  then show ?thesis by (cases "halt_forever dev") auto
qed

lemma flag_kept: "m AND r = 0 \<Longrightarrow> (f AND NOT r) AND m = f AND (m :: 8 word)"
  apply (rule bit_eqI)
  apply (auto simp: bit_simps)
  by (metis bit_and_iff bit_0_eq bot_apply bot_bool_def)

lemma flag_cleared: "(f AND NOT c) AND c = (0 :: 8 word)"
  by (rule bit_eqI) (auto simp: bit_simps)

lemma w1c_clears: "(f AND NOT (d OR c)) AND d = (0 :: 8 word)"
  by (rule bit_eqI) (auto simp: bit_simps)

lemma sint16: "- 32768 \<le> x \<Longrightarrow> x < 32768 \<Longrightarrow> sint (word_of_int x :: 16 word) = x"
  by (simp add: sint_sbintrunc' signed_take_bit_int_eq_self)

lemma sint8: "- 128 \<le> x \<Longrightarrow> x < 128 \<Longrightarrow> sint (word_of_int x :: 8 word) = x"
  by (simp add: sint_sbintrunc' signed_take_bit_int_eq_self)

lemma sint8_small: "uint (w :: 8 word) < 128 \<Longrightarrow> sint w = uint w"
proof -
  assume a: "uint w < 128"
  have "- 128 \<le> uint w" using uint_ge_0[of w] by linarith
  from sint8[OF this a] show ?thesis by simp
qed

lemma sint8_neg: "uint (w :: 8 word) \<le> 128 \<Longrightarrow> sint (- w) = - uint w"
proof -
  assume a: "uint w \<le> 128"
  have "- w = word_of_int (- uint w)" by simp
  moreover have "sint (word_of_int (- uint w) :: 8 word) = - uint w"
    using a uint_ge_0[of w] by (intro sint8) linarith+
  ultimately show ?thesis by simp
qed

lemma uint_drop_bit_4: "uint (drop_bit 4 (r :: 8 word)) = uint r div 16"
  by (simp add: drop_bit_eq_div uint_div)

lemma uint_drop_bit_2: "uint (drop_bit 2 (r :: 8 word)) = uint r div 4"
  by (simp add: drop_bit_eq_div uint_div)

lemma and_ff: "(r :: 8 word) AND 0xFF = r"
proof -
  have "(0xFF :: 8 word) = mask 8" by (simp add: mask_eq_exp_minus_1)
  then have "r AND 0xFF = take_bit 8 r" by (simp only: take_bit_eq_mask)
  then show ?thesis by (simp add: take_bit_word_eq_self)
qed

lemma and_80_bit7: "(r AND 0x80 \<noteq> 0) = bit (r :: 8 word) 7"
proof -
  have "(0x80 :: 8 word) = 2 ^ 7" by simp
  then show ?thesis by (simp only: and_exp_eq_0_iff_not_bit) simp
qed

lemma ucast_low_byte: "(ucast (w AND 0xFF :: 32 word) :: 8 word) = ucast w"
proof -
  have m: "(0xFF :: 32 word) = mask 8" by (simp add: mask_eq_exp_minus_1)
  show ?thesis unfolding m by (rule bit_eqI) (auto simp: bit_simps)
qed

lemma byte2:
  "ucast (drop_bit 16 (word_of_nat t :: 32 word) AND 0xFF)
     = (word_of_nat (t div 65536 mod 256) :: 8 word)"
proof -
  have "t div 65536 mod 256 = take_bit 8 (drop_bit 16 t)"
    by (simp add: take_bit_eq_mod drop_bit_eq_div)
  then show ?thesis unfolding ucast_low_byte
    by (simp only:) (rule bit_eqI, auto simp: bit_simps)
qed

lemma byte1:
  "ucast (drop_bit 8 (word_of_nat t :: 32 word) AND 0xFF)
     = (word_of_nat (t div 256 mod 256) :: 8 word)"
proof -
  have "t div 256 mod 256 = take_bit 8 (drop_bit 8 t)"
    by (simp add: take_bit_eq_mod drop_bit_eq_div)
  then show ?thesis unfolding ucast_low_byte
    by (simp only:) (rule bit_eqI, auto simp: bit_simps)
qed

lemma byte0:
  "ucast ((word_of_nat t :: 32 word) AND 0xFF) = (word_of_nat (t mod 256) :: 8 word)"
proof -
  have "t mod 256 = take_bit 8 t"
    by (simp add: take_bit_eq_mod)
  then show ?thesis unfolding ucast_low_byte
    by (simp only:) (rule bit_eqI, auto simp: bit_simps)
qed

lemma word_lt_9:
  "(b :: 32 word) < 9 \<Longrightarrow>
     b = 0 \<or> b = 1 \<or> b = 2 \<or> b = 3 \<or> b = 4 \<or> b = 5 \<or> b = 6 \<or> b = 7 \<or> b = 8"
proof -
  assume "b < 9"
  then have "unat b < 9" by (simp add: word_less_nat_alt)
  then have "unat b = 0 \<or> unat b = 1 \<or> unat b = 2 \<or> unat b = 3 \<or> unat b = 4 \<or> unat b = 5
             \<or> unat b = 6 \<or> unat b = 7 \<or> unat b = 8" by linarith
  then show ?thesis by (simp add: word_unat_eq_iff)
qed

lemma word_le_2: "(b :: 32 word) \<le> 2 \<Longrightarrow> b = 0 \<or> b = 1 \<or> b = 2"
proof -
  assume "b \<le> 2"
  then have "unat b \<le> 2" by (simp add: word_le_nat_alt)
  then have "unat b = 0 \<or> unat b = 1 \<or> unat b = 2" by linarith
  then show ?thesis by (simp add: word_unat_eq_iff)
qed

subsection \<open>What the primitives leave alone\<close>

lemma trace_reg_write: "trace (sx1276_reg_write K d a v) = trace d @ [RegWrite a v]"
  by (simp add: prim_defs)

lemma chip_reg_write_same:
  "reg_index a \<noteq> reg_index (REG_LR_IRQFLAGS K) \<Longrightarrow> chip_reg (sx1276_reg_write K d a v) a = v"
  by (simp add: prim_defs)

lemma frame_write:
  "lora_datarate (sx1276_reg_write K d a v) = lora_datarate d"
  "lora_low_datarate_optimize (sx1276_reg_write K d a v) = lora_low_datarate_optimize d"
  "lora_freq_hop_on (sx1276_reg_write K d a v) = lora_freq_hop_on d"
  "lora_hop_period (sx1276_reg_write K d a v) = lora_hop_period d"
  "lora_bandwidth (sx1276_reg_write K d a v) = lora_bandwidth d"
  "settings_channel (sx1276_reg_write K d a v) = settings_channel d"
  by (simp_all add: sx1276_reg_write_def emit_def)

lemma frame_emit:
  "lora_datarate (emit d e) = lora_datarate d"
  "lora_low_datarate_optimize (emit d e) = lora_low_datarate_optimize d"
  "lora_freq_hop_on (emit d e) = lora_freq_hop_on d"
  "lora_hop_period (emit d e) = lora_hop_period d"
  "lora_bandwidth (emit d e) = lora_bandwidth d"
  "settings_channel (emit d e) = settings_channel d"
  by (simp_all add: emit_def)

subsection \<open>The SNR decode\<close>

text \<open>The handler's decode of the SNR byte is the specification's formula.\<close>

lemma snr_decode:
  "sint (if r AND 0x80 \<noteq> 0 then - drop_bit 2 ((NOT r + 1) AND 0xFF)
         else drop_bit 2 (r AND 0xFF) :: 8 word)
     = spec_snr r"
proof (cases "bit r 7")
  case True
  have u: "uint (drop_bit 2 (- r)) = (- uint r) mod 256 div 4"
    by (simp add: uint_drop_bit_2 uint_word_ariths)
  have "(- uint r) mod 256 < 256" by simp
  then have "uint (drop_bit 2 (- r)) \<le> 128" unfolding u by linarith
  from sint8_neg[OF this] True show ?thesis
    by (simp add: and_80_bit7 and_ff minus_eq_not_plus_1 [symmetric] spec_snr_def u)
next
  case False
  have "uint r < 256" using uint_lt2p[of r] by simp
  then have "uint (drop_bit 2 r) < 128" unfolding uint_drop_bit_2 by linarith
  from sint8_small[OF this] False show ?thesis
    by (simp add: and_80_bit7 and_ff spec_snr_def uint_drop_bit_2)
qed

lemma spec_snr_bounds: "- 64 \<le> spec_snr r \<and> spec_snr r < 64"
proof -
  have "uint r < 256" "0 \<le> uint r" using uint_lt2p[of r] by simp_all
  moreover have "(- uint r) mod 256 < 256" "0 \<le> (- uint r) mod 256" by simp_all
  ultimately show ?thesis unfolding spec_snr_def by (auto; linarith)
qed

subsection \<open>Operating mode\<close>

text \<open>
  What \<^verbatim>\<open>sx1276_set_op_mode\<close> does, for every constant table: one read of the
  mode register; nothing more when the requested mode is the current one;
  otherwise the antenna switch, then one write of the requested mode alone (the
  bits of the register outside the mode field are written as 0), then 5000 us.
\<close>

lemma set_op_mode_trace:
  "trace (sx1276_set_op_mode K dev m) = trace dev @
     (if m = chip_reg dev (REG_OPMODE K) AND NOT (RF_OPMODE_MASK K)
      then [RegRead (REG_OPMODE K)]
      else [RegRead (REG_OPMODE K)] @
           (if m = RF_OPMODE_SLEEP K then [AntSwLowPower True]
            else [AntSwLowPower False, AntSw (if m = RF_OPMODE_TRANSMITTER K then 1 else 0)]) @
           [RegWrite (REG_OPMODE K) m, Usleep 5000])"
  by (simp add: sx1276_set_op_mode_def prim_defs Let_def word_bw_assocs)

text \<open>
  C9. \<^verbatim>\<open>sx1276_set_op_mode\<close> on the register map of the data sheet, with the
  mode register holding \<open>0x80\<close> (LoRa, sleep) and standby (\<open>0x01\<close>)
  requested: the register is read, the antenna switch is set to receive, and the
  byte written is \<open>0x01\<close>, not the merge \<open>0x81\<close> of the register's other
  bits with the new mode; the mode register then holds \<open>0x01\<close>.
\<close>

theorem set_op_mode_overwrites_register:
  "trace (sx1276_set_op_mode datasheet (dev0\<lparr>regs := (regs dev0)(0x01 := 0x80)\<rparr>) 0x01)
     = [RegRead 0x01, AntSwLowPower False, AntSw 0, RegWrite 0x01 0x01, Usleep 5000]
   \<and> chip_reg (sx1276_set_op_mode datasheet (dev0\<lparr>regs := (regs dev0)(0x01 := 0x80)\<rparr>) 0x01) 0x01
     = 0x01
   \<and> (0x80 AND RF_OPMODE_MASK datasheet) OR 0x01 = 0x81"
  by (simp add: sx1276_set_op_mode_def prim_defs Let_def datasheet_simps dev0_simps
      cong: let_weak_cong prod.case_cong_weak)

subsection \<open>Channel\<close>

text \<open>
  C6, as amended. \<^verbatim>\<open>sx1276_set_channel\<close> reads the mode register, goes to
  standby, writes the tick count \<open>t\<close>, which is the quotient of the frequency by
  the step cut off below (not rounded), as three bytes in the order most
  significant, middle, least significant (the low 24 bits of \<open>t\<close>), and writes
  the mode register back; where the mode register is an ordinary register it
  then holds what it held before the call.
\<close>

theorem set_channel_registers:
  assumes "reg_index (REG_OPMODE K) \<noteq> reg_index (REG_LR_IRQFLAGS K)"
    and "t = floor_ticks K freq"
  shows "trace (sx1276_set_channel K dev freq)
          = trace (sx1276_set_op_mode K (snd (sx1276_reg_read dev (REG_OPMODE K)))
                     (RF_OPMODE_STANDBY K))
            @ [RegWrite (REG_FRFMSB K) (word_of_nat (t div 65536 mod 256)),
               RegWrite (REG_FRFMID K) (word_of_nat (t div 256 mod 256)),
               RegWrite (REG_FRFLSB K) (word_of_nat (t mod 256)),
               RegWrite (REG_OPMODE K) (chip_reg dev (REG_OPMODE K))]
     \<and> chip_reg (sx1276_set_channel K dev freq) (REG_OPMODE K) = chip_reg dev (REG_OPMODE K)"
  using assms(1) unfolding assms(2)
  by (simp add: sx1276_set_channel_def Let_def trace_reg_write chip_reg_write_same
      freq_to_ticks_def floor_ticks_def byte2 byte1 byte0 sx1276_reg_read_def)

theorem set_channel_registers_witness:
  "reg_index (REG_OPMODE datasheet) \<noteq> reg_index (REG_LR_IRQFLAGS datasheet)
   \<and> floor_ticks datasheet 868000000 = 14221312
   \<and> trace (sx1276_set_channel datasheet dev0 868000000)
       = [RegRead 0x01, RegRead 0x01, AntSwLowPower False, AntSw 0, RegWrite 0x01 0x01,
          Usleep 5000, RegWrite 0x06 0xD9, RegWrite 0x07 0x00, RegWrite 0x08 0x00,
          RegWrite 0x01 0x00]
   \<and> chip_reg (sx1276_set_channel datasheet dev0 868000000) 0x01 = chip_reg dev0 0x01"
  using set_channel_registers[of datasheet 14221312 868000000 dev0]
  by (simp add: floor_ticks_def sx1276_set_op_mode_def prim_defs Let_def datasheet_simps
      dev0_simps cong: let_weak_cong prod.case_cong_weak)

text \<open>
  C6 as stated fails: at 100 Hz the quotient is 1.638..., the nearest integer is 2,
  and the driver writes 1.
\<close>

theorem set_channel_rounding_counterexample:
  "writes_to (REG_FRFMSB datasheet) (trace (sx1276_set_channel datasheet dev0 100)) = [0]
   \<and> writes_to (REG_FRFMID datasheet) (trace (sx1276_set_channel datasheet dev0 100)) = [0]
   \<and> writes_to (REG_FRFLSB datasheet) (trace (sx1276_set_channel datasheet dev0 100)) = [1]
   \<and> spec_round_ticks datasheet 100 = 2"
  by (simp add: sx1276_set_channel_def sx1276_set_op_mode_def freq_to_ticks_def prim_defs Let_def
      dev0_simps datasheet_simps spec_round_ticks_def cong: let_weak_cong prod.case_cong_weak)

subsection \<open>Receive and transmit configuration\<close>

text \<open>
  C1. With the LoRa modem and bandwidth code 2 (500 kHz), on the register map of
  the data sheet, \<^verbatim>\<open>sx1276_set_rx_config\<close> and \<^verbatim>\<open>sx1276_set_tx_config\<close>
  write \<open>0x02\<close> to test register \<open>0x36\<close> and \<open>0x64\<close> to test register
  \<open>0x3A\<close> whatever the channel \<open>c\<close> of the device is: the condition tests the
  threshold constant, not the channel, so the value \<open>0x7F\<close> is never written.
  With bandwidth codes 0 and 1 they write \<open>0x03\<close> to \<open>0x36\<close> and nothing
  to \<open>0x3A\<close>.
\<close>

theorem errata_2_1_ignores_channel:
  "map_option (\<lambda>d. (writes_to (REG_LR_TEST36 datasheet) (trace d),
                     writes_to (REG_LR_TEST3A datasheet) (trace d)))
     (sx1276_set_rx_config datasheet (dev0\<lparr>settings_channel := c\<rparr>) MODEM_LORA 2 7 1 0 8 5
        False 0 True False 0 False True) = Some ([0x02], [0x64])
   \<and> map_option (\<lambda>d. (writes_to (REG_LR_TEST36 datasheet) (trace d),
                       writes_to (REG_LR_TEST3A datasheet) (trace d)))
     (sx1276_set_tx_config datasheet (dev0\<lparr>settings_channel := c\<rparr>) MODEM_LORA 14 0 2 7 1 8
        False True False 0 False 3000000) = Some ([0x02], [0x64])
   \<and> map_option (\<lambda>d. (writes_to (REG_LR_TEST36 datasheet) (trace d),
                       writes_to (REG_LR_TEST3A datasheet) (trace d)))
     (sx1276_set_rx_config datasheet (dev0\<lparr>settings_channel := c\<rparr>) MODEM_LORA 0 7 1 0 8 5
        False 0 True False 0 False True) = Some ([0x03], [])
   \<and> map_option (\<lambda>d. (writes_to (REG_LR_TEST36 datasheet) (trace d),
                       writes_to (REG_LR_TEST3A datasheet) (trace d)))
     (sx1276_set_tx_config datasheet (dev0\<lparr>settings_channel := c\<rparr>) MODEM_LORA 14 0 1 7 1 8
        False True False 0 False 3000000) = Some ([0x03], [])"
  by (simp add: sx1276_set_rx_config_def sx1276_set_tx_config_def set_tx_power_def
      sx1276_get_pa_select_def sx1276_set_modem_def sx1276_set_op_mode_def prim_defs Let_def
      dev0_simps datasheet_simps cong: let_weak_cong prod.case_cong_weak)

text \<open>
  C4. For every bandwidth code up to 2 and every data rate, both configuration
  functions return, the low-data-rate flag they store is the documented
  predicate of the clamped data rate, and the data rate they store in the device
  state is the argument as passed, not the clamped one.
\<close>

theorem config_stores_unclamped_datarate:
  assumes "bandwidth \<le> 2"
  shows "(\<exists>d. sx1276_set_rx_config K dev MODEM_LORA bandwidth datarate coderate bandwidth_afc
              preamble_len symb_timeout implicit_header payload_len crc_on freq_hop_on
              hop_period iq_inverted rx_continuous = Some d
            \<and> lora_datarate d = datarate
            \<and> lora_low_datarate_optimize d
                = of_bool (spec_low_datarate_optimize bandwidth (clamp_datarate datarate)))
       \<and> (\<exists>d. sx1276_set_tx_config K dev MODEM_LORA pwr fdev bandwidth datarate coderate
              preamble_len implicit_header crc_on freq_hop_on hop_period iq_inverted timeout
                = Some d
            \<and> lora_datarate d = datarate
            \<and> lora_low_datarate_optimize d
                = of_bool (spec_low_datarate_optimize bandwidth (clamp_datarate datarate)))"
proof -
  have rx: "\<exists>d. sx1276_set_rx_config K dev MODEM_LORA bandwidth datarate coderate bandwidth_afc
              preamble_len symb_timeout implicit_header payload_len crc_on freq_hop_on
              hop_period iq_inverted rx_continuous = Some d
            \<and> lora_datarate d = datarate
            \<and> lora_low_datarate_optimize d
                = of_bool (spec_low_datarate_optimize bandwidth (clamp_datarate datarate))"
    using word_le_2[OF assms]
    by (elim disjE)
       (simp_all add: sx1276_set_rx_config_def sx1276_reg_read_def frame_write frame_emit Let_def
          clamp_datarate_def spec_low_datarate_optimize_def
          cong: let_weak_cong prod.case_cong_weak)
  have tx: "\<exists>d. sx1276_set_tx_config K dev MODEM_LORA pwr fdev bandwidth datarate coderate
              preamble_len implicit_header crc_on freq_hop_on hop_period iq_inverted timeout
                = Some d
            \<and> lora_datarate d = datarate
            \<and> lora_low_datarate_optimize d
                = of_bool (spec_low_datarate_optimize bandwidth (clamp_datarate datarate))"
    using word_le_2[OF assms]
    by (elim disjE)
       (simp_all add: sx1276_set_tx_config_def sx1276_reg_read_def frame_write frame_emit Let_def
          clamp_datarate_def spec_low_datarate_optimize_def
          cong: let_weak_cong prod.case_cong_weak)
  from rx tx show ?thesis by blast
qed

theorem config_stores_unclamped_datarate_witness:
  "(0 :: 32 word) \<le> 2 \<and> clamp_datarate 13 = 12
   \<and> (\<exists>d. sx1276_set_rx_config datasheet dev0 MODEM_LORA 0 13 1 0 8 5 False 0 True False 0
              False True = Some d
          \<and> lora_datarate d = 13 \<and> lora_low_datarate_optimize d = 1)
   \<and> (\<exists>d. sx1276_set_tx_config datasheet dev0 MODEM_LORA 14 0 0 13 1 8 False True False 0
              False 3000000 = Some d
          \<and> lora_datarate d = 13 \<and> lora_low_datarate_optimize d = 1)"
  using config_stores_unclamped_datarate[of 0 datasheet dev0 13 1 0 8 5 False 0 True False 0
          False True 14 0 3000000]
  by (simp add: clamp_datarate_def spec_low_datarate_optimize_def)

text \<open>A bandwidth code above 2 with the LoRa modem: neither function returns.\<close>

lemma config_bad_bandwidth:
  "2 < bandwidth \<Longrightarrow>
     sx1276_set_rx_config K dev MODEM_LORA bandwidth datarate coderate bandwidth_afc
       preamble_len symb_timeout implicit_header payload_len crc_on freq_hop_on
       hop_period iq_inverted rx_continuous = None
     \<and> sx1276_set_tx_config K dev MODEM_LORA pwr fdev bandwidth datarate coderate
       preamble_len implicit_header crc_on freq_hop_on hop_period iq_inverted timeout = None"
  by (simp add: sx1276_set_rx_config_def sx1276_set_tx_config_def halt_forever_None Let_def
      cong: let_weak_cong)

lemma sel_shifted_out:
  "(ucast (ucast (r AND 0x7F :: 8 word) OR push_bit 7 (ucast (s :: 8 word)) :: 32 word) :: 8 word)
     = (r AND 0x7F) OR push_bit 7 s"
  by (rule bit_eqI) (auto simp: bit_simps)

lemma no_boost: "(((r AND 0x7F) AND 0x8F) OR 0x50) AND 0x80 \<noteq> (0x80 :: 8 word)"
proof
  assume a: "(((r AND 0x7F) AND 0x8F) OR 0x50) AND 0x80 = (0x80 :: 8 word)"
  have "bit ((((r AND 0x7F) AND 0x8F) OR 0x50) AND 0x80 :: 8 word) 7 = False"
    by (simp add: bit_simps)
  moreover have "bit (0x80 :: 8 word) 7" by simp
  ultimately show False using a by simp
qed

text \<open>
  C5. \<^verbatim>\<open>sx1276_get_pa_select\<close> at 434 MHz, below the threshold, returns the
  boosted selection; yet the power-amplifier part of \<^verbatim>\<open>sx1276_set_tx_config\<close>
  on a device at 434 MHz with 18 dBm requested writes \<open>0x5F\<close> to the PA
  configuration register and leaves the PA DAC register as read: the selection
  bit is shifted out of the byte, the output is the RFO one, the power is
  clamped to 14 and \<open>14 + 1\<close> is stored, and the +20 dBm DAC is not enabled.
\<close>

theorem tx_power_never_boosted:
  "sx1276_get_pa_select datasheet 434000000 = RF_PACONFIG_PASELECT_PABOOST datasheet
   \<and> trace (set_tx_power datasheet (dev0\<lparr>settings_channel := 434000000\<rparr>) 18)
      = [RegRead 0x09, RegRead 0x4D, RegWrite 0x0A 0x08, RegWrite 0x09 0x5F, RegWrite 0x4D 0x00]"
  by (simp add: set_tx_power_def sx1276_get_pa_select_def prim_defs Let_def dev0_simps
      datasheet_simps cong: let_weak_cong prod.case_cong_weak)

text \<open>
  The same on every device and for every requested power, on the register map of
  the data sheet: the RFO law (clamp to \<open>-1 .. 14\<close>, store \<open>power + 1\<close>) is
  the only one applied, and the PA DAC register is written back as it was read.
\<close>

lemma set_tx_power_rfo:
  "trace (set_tx_power datasheet dev pwr) = trace dev @
     [RegRead 0x09, RegRead 0x4D, RegWrite 0x0A 0x08,
      RegWrite 0x09
        (((((chip_reg dev 0x09 AND 0x7F) AND 0x8F) OR 0x50) AND 0xF0)
         OR ucast ((word_of_int
                      (sint (if sint (if sint pwr < - 1 then - 1 else pwr) > 14 then 14
                             else (if sint pwr < - 1 then - 1 else pwr)) + 1) :: 16 word)
                   AND 0x0F)),
      RegWrite 0x4D (chip_reg dev 0x4D)]"
proof -
  have s: "push_bit 7 (sx1276_get_pa_select datasheet c) = 0" for c
    by (simp add: sx1276_get_pa_select_def datasheet_simps)
  show ?thesis
    using no_boost[of "regs dev 9"]
    by (simp add: set_tx_power_def sel_shifted_out s prim_defs Let_def datasheet_simps
        cong: let_weak_cong prod.case_cong_weak)
qed

subsection \<open>Receive\<close>

text \<open>
  The erratum block alone: for a bandwidth code below 9 it reads the
  detection-optimize register, writes it back with bit 7 clear, writes 0 to test
  register \<open>0x30\<close> and the table value of the code to test register
  \<open>0x2F\<close>; for the codes 0 to 5 it then calls \<^verbatim>\<open>sx1276_set_channel\<close>
  with the device's channel plus the table offset, and for 6, 7 and 8 it does
  nothing more.
\<close>

lemma errata_2_3_cases:
  assumes "lora_bandwidth dev < 9"
    and "dev2 = sx1276_reg_write K
                  (sx1276_reg_write K
                     (sx1276_reg_write K (snd (sx1276_reg_read dev (REG_LR_DETECTOPTIMIZE K)))
                        (REG_LR_DETECTOPTIMIZE K) (chip_reg dev (REG_LR_DETECTOPTIMIZE K) AND 0x7F))
                     (REG_LR_TEST30 K) 0x00)
                  (REG_LR_TEST2F K) (errata_2_3_value (lora_bandwidth dev))"
  shows "errata_2_3 K dev
           = (case errata_2_3_offset (lora_bandwidth dev) of
                None \<Rightarrow> dev2
              | Some off \<Rightarrow> sx1276_set_channel K dev2 (settings_channel dev + off))
     \<and> trace dev2 = trace dev @
           [RegRead (REG_LR_DETECTOPTIMIZE K),
            RegWrite (REG_LR_DETECTOPTIMIZE K) (chip_reg dev (REG_LR_DETECTOPTIMIZE K) AND 0x7F),
            RegWrite (REG_LR_TEST30 K) 0x00,
            RegWrite (REG_LR_TEST2F K) (errata_2_3_value (lora_bandwidth dev))]
     \<and> (errata_2_3_offset (lora_bandwidth dev) = None) = (lora_bandwidth dev \<in> {6, 7, 8})"
proof -
  have tr: "trace dev2 = trace dev @
           [RegRead (REG_LR_DETECTOPTIMIZE K),
            RegWrite (REG_LR_DETECTOPTIMIZE K) (chip_reg dev (REG_LR_DETECTOPTIMIZE K) AND 0x7F),
            RegWrite (REG_LR_TEST30 K) 0x00,
            RegWrite (REG_LR_TEST2F K) (errata_2_3_value (lora_bandwidth dev))]"
    unfolding assms(2) by (simp add: prim_defs)
  have f: "lora_bandwidth (snd (sx1276_reg_read d a)) = lora_bandwidth d"
          "settings_channel (snd (sx1276_reg_read d a)) = settings_channel d"
          "fst (sx1276_reg_read d a) = chip_reg d a" for d a
    by (simp_all add: prim_defs)
  from word_lt_9[OF assms(1)]
  have "errata_2_3 K dev
           = (case errata_2_3_offset (lora_bandwidth dev) of
                None \<Rightarrow> dev2
              | Some off \<Rightarrow> sx1276_set_channel K dev2 (settings_channel dev + off))
        \<and> (errata_2_3_offset (lora_bandwidth dev) = None) = (lora_bandwidth dev \<in> {6, 7, 8})"
    unfolding assms(2)
    by (elim disjE)
       (simp_all add: errata_2_3_def errata_2_3_offset_def errata_2_3_value_def Let_def f
          frame_write split_def)
  with tr show ?thesis by simp
qed

text \<open>For the LoRa modem \<^verbatim>\<open>sx1276_set_rx\<close> is its three parts in sequence.\<close>

lemma set_rx_blocks:
  "settings_modem dev = MODEM_LORA \<Longrightarrow>
     sx1276_set_rx K dev timeout = set_rx_arm K (errata_2_3 K (set_rx_iq K dev)) timeout"
  by (simp add: sx1276_set_rx_def set_rx_arm_def set_rx_iq_def Let_def split_def)

lemma set_rx_iq_frame:
  "lora_bandwidth (set_rx_iq K dev) = lora_bandwidth dev"
  "settings_channel (set_rx_iq K dev) = settings_channel dev"
  by (simp_all add: set_rx_iq_def Let_def split_def frame_write sx1276_reg_read_def frame_emit)

lemma set_rx_iq_trace:
  "trace (set_rx_iq K dev) = trace dev @
     [RegRead (REG_LR_INVERTIQ K),
      RegWrite (REG_LR_INVERTIQ K)
        ((chip_reg dev (REG_LR_INVERTIQ K) AND RFLR_INVERTIQ_TX_MASK K AND RFLR_INVERTIQ_RX_MASK K)
         OR (if lora_iq_inverted dev then RFLR_INVERTIQ_RX_ON K else RFLR_INVERTIQ_RX_OFF K)
         OR RFLR_INVERTIQ_TX_OFF K),
      RegWrite (REG_LR_INVERTIQ2 K)
        (if lora_iq_inverted dev then RFLR_INVERTIQ2_ON K else RFLR_INVERTIQ2_OFF K)]"
  by (simp add: set_rx_iq_def prim_defs Let_def)

text \<open>
  C7, as amended. \<^verbatim>\<open>sx1276_set_rx\<close> on a LoRa device whose bandwidth code is
  below 9: after the IQ-inversion writes it reads the detection-optimize
  register, writes it back with bit 7 clear, writes 0 to test register
  \<open>0x30\<close> and the value of the code (one of nine codes) to test register
  \<open>0x2F\<close>; for the codes 0 to 5 it then calls \<^verbatim>\<open>sx1276_set_channel\<close>
  with the device's channel plus the offset of the code, for the codes 6, 7 and
  8 it does not; and from the state so reached it arms the receiver.
\<close>

theorem set_rx_errata_2_3:
  assumes "settings_modem dev = MODEM_LORA" and "lora_bandwidth dev < 9"
    and "dev2 = sx1276_reg_write K
                  (sx1276_reg_write K
                     (sx1276_reg_write K
                        (snd (sx1276_reg_read (set_rx_iq K dev) (REG_LR_DETECTOPTIMIZE K)))
                        (REG_LR_DETECTOPTIMIZE K)
                        (chip_reg (set_rx_iq K dev) (REG_LR_DETECTOPTIMIZE K) AND 0x7F))
                     (REG_LR_TEST30 K) 0x00)
                  (REG_LR_TEST2F K) (errata_2_3_value (lora_bandwidth dev))"
  shows "sx1276_set_rx K dev timeout
           = set_rx_arm K
               (case errata_2_3_offset (lora_bandwidth dev) of
                  None \<Rightarrow> dev2
                | Some off \<Rightarrow> sx1276_set_channel K dev2 (settings_channel dev + off))
               timeout
     \<and> trace dev2 = trace dev @
           [RegRead (REG_LR_INVERTIQ K),
            RegWrite (REG_LR_INVERTIQ K)
              ((chip_reg dev (REG_LR_INVERTIQ K) AND RFLR_INVERTIQ_TX_MASK K
                  AND RFLR_INVERTIQ_RX_MASK K)
               OR (if lora_iq_inverted dev then RFLR_INVERTIQ_RX_ON K
                   else RFLR_INVERTIQ_RX_OFF K)
               OR RFLR_INVERTIQ_TX_OFF K),
            RegWrite (REG_LR_INVERTIQ2 K)
              (if lora_iq_inverted dev then RFLR_INVERTIQ2_ON K else RFLR_INVERTIQ2_OFF K),
            RegRead (REG_LR_DETECTOPTIMIZE K),
            RegWrite (REG_LR_DETECTOPTIMIZE K)
              (chip_reg (set_rx_iq K dev) (REG_LR_DETECTOPTIMIZE K) AND 0x7F),
            RegWrite (REG_LR_TEST30 K) 0x00,
            RegWrite (REG_LR_TEST2F K) (errata_2_3_value (lora_bandwidth dev))]
     \<and> (errata_2_3_offset (lora_bandwidth dev) = None) = (lora_bandwidth dev \<in> {6, 7, 8})"
proof -
  have bw: "lora_bandwidth (set_rx_iq K dev) < 9"
    using assms(2) by (simp add: set_rx_iq_frame)
  have d2: "dev2 = sx1276_reg_write K
                  (sx1276_reg_write K
                     (sx1276_reg_write K
                        (snd (sx1276_reg_read (set_rx_iq K dev) (REG_LR_DETECTOPTIMIZE K)))
                        (REG_LR_DETECTOPTIMIZE K)
                        (chip_reg (set_rx_iq K dev) (REG_LR_DETECTOPTIMIZE K) AND 0x7F))
                     (REG_LR_TEST30 K) 0x00)
                  (REG_LR_TEST2F K) (errata_2_3_value (lora_bandwidth (set_rx_iq K dev)))"
    unfolding assms(3) by (simp only: set_rx_iq_frame)
  from errata_2_3_cases[OF bw d2]
  have e: "errata_2_3 K (set_rx_iq K dev)
             = (case errata_2_3_offset (lora_bandwidth dev) of
                  None \<Rightarrow> dev2
                | Some off \<Rightarrow> sx1276_set_channel K dev2 (settings_channel dev + off))"
    and t: "trace dev2 = trace (set_rx_iq K dev) @
           [RegRead (REG_LR_DETECTOPTIMIZE K),
            RegWrite (REG_LR_DETECTOPTIMIZE K)
              (chip_reg (set_rx_iq K dev) (REG_LR_DETECTOPTIMIZE K) AND 0x7F),
            RegWrite (REG_LR_TEST30 K) 0x00,
            RegWrite (REG_LR_TEST2F K) (errata_2_3_value (lora_bandwidth dev))]"
    and n: "(errata_2_3_offset (lora_bandwidth dev) = None) = (lora_bandwidth dev \<in> {6, 7, 8})"
    by (simp_all only: set_rx_iq_frame)
  have "sx1276_set_rx K dev timeout
           = set_rx_arm K
               (case errata_2_3_offset (lora_bandwidth dev) of
                  None \<Rightarrow> dev2
                | Some off \<Rightarrow> sx1276_set_channel K dev2 (settings_channel dev + off))
               timeout"
    using set_rx_blocks[OF assms(1), of K timeout] by (simp only: e)
  with t n show ?thesis by (simp add: set_rx_iq_trace)
qed

theorem set_rx_errata_2_3_witness:
  "settings_modem (dev0\<lparr>lora_bandwidth := 7\<rparr>) = MODEM_LORA
   \<and> lora_bandwidth (dev0\<lparr>lora_bandwidth := 7\<rparr>) < 9
   \<and> trace (sx1276_set_rx datasheet (dev0\<lparr>lora_bandwidth := 7\<rparr>) 0)
       = [RegRead 0x33, RegWrite 0x33 0x01, RegWrite 0x3B 0x1D,
          RegRead 0x31, RegWrite 0x31 0x00, RegWrite 0x30 0x00, RegWrite 0x2F 0x40,
          RegWrite 0x11 0x1F, RegRead 0x40, RegWrite 0x40 0x00,
          RegWrite 0x0F 0x00, RegWrite 0x0D 0x00,
          RegRead 0x01, AntSwLowPower False, AntSw 0, RegWrite 0x01 0x06, Usleep 5000]"
  using set_rx_errata_2_3[where dev = "dev0\<lparr>lora_bandwidth := 7\<rparr>" and K = datasheet
          and timeout = 0, OF _ _ refl]
  by (simp add: errata_2_3_offset_def errata_2_3_value_def set_rx_arm_def set_rx_iq_def
      sx1276_set_op_mode_def prim_defs Let_def datasheet_simps dev0_simps
      cong: let_weak_cong prod.case_cong_weak)

text \<open>
  \<^verbatim>\<open>sx1276_set_rx\<close> on \<open>dev0\<close> with each bandwidth code below 9: what it
  writes to the first frequency register and to test register \<open>0x2F\<close>.
\<close>

lemma set_rx_code_writes:
  "writes_to (REG_FRFMSB datasheet)
     (trace (sx1276_set_rx datasheet (dev0\<lparr>lora_bandwidth := 0\<rparr>) 0)) = [0x00]"
  "writes_to (REG_FRFMSB datasheet)
     (trace (sx1276_set_rx datasheet (dev0\<lparr>lora_bandwidth := 1\<rparr>) 0)) = [0x00]"
  "writes_to (REG_FRFMSB datasheet)
     (trace (sx1276_set_rx datasheet (dev0\<lparr>lora_bandwidth := 2\<rparr>) 0)) = [0x00]"
  "writes_to (REG_FRFMSB datasheet)
     (trace (sx1276_set_rx datasheet (dev0\<lparr>lora_bandwidth := 3\<rparr>) 0)) = [0x00]"
  "writes_to (REG_FRFMSB datasheet)
     (trace (sx1276_set_rx datasheet (dev0\<lparr>lora_bandwidth := 4\<rparr>) 0)) = [0x00]"
  "writes_to (REG_FRFMSB datasheet)
     (trace (sx1276_set_rx datasheet (dev0\<lparr>lora_bandwidth := 5\<rparr>) 0)) = [0x00]"
  "writes_to (REG_FRFMSB datasheet)
     (trace (sx1276_set_rx datasheet (dev0\<lparr>lora_bandwidth := 6\<rparr>) 0)) = []"
  "writes_to (REG_FRFMSB datasheet)
     (trace (sx1276_set_rx datasheet (dev0\<lparr>lora_bandwidth := 7\<rparr>) 0)) = []"
  "writes_to (REG_FRFMSB datasheet)
     (trace (sx1276_set_rx datasheet (dev0\<lparr>lora_bandwidth := 8\<rparr>) 0)) = []"
  "writes_to (REG_LR_TEST2F datasheet)
     (trace (sx1276_set_rx datasheet (dev0\<lparr>lora_bandwidth := 0\<rparr>) 0)) = [0x48]"
  "writes_to (REG_LR_TEST2F datasheet)
     (trace (sx1276_set_rx datasheet (dev0\<lparr>lora_bandwidth := 1\<rparr>) 0)) = [0x44]"
  "writes_to (REG_LR_TEST2F datasheet)
     (trace (sx1276_set_rx datasheet (dev0\<lparr>lora_bandwidth := 2\<rparr>) 0)) = [0x44]"
  "writes_to (REG_LR_TEST2F datasheet)
     (trace (sx1276_set_rx datasheet (dev0\<lparr>lora_bandwidth := 3\<rparr>) 0)) = [0x44]"
  "writes_to (REG_LR_TEST2F datasheet)
     (trace (sx1276_set_rx datasheet (dev0\<lparr>lora_bandwidth := 4\<rparr>) 0)) = [0x44]"
  "writes_to (REG_LR_TEST2F datasheet)
     (trace (sx1276_set_rx datasheet (dev0\<lparr>lora_bandwidth := 5\<rparr>) 0)) = [0x44]"
  "writes_to (REG_LR_TEST2F datasheet)
     (trace (sx1276_set_rx datasheet (dev0\<lparr>lora_bandwidth := 6\<rparr>) 0)) = [0x40]"
  "writes_to (REG_LR_TEST2F datasheet)
     (trace (sx1276_set_rx datasheet (dev0\<lparr>lora_bandwidth := 7\<rparr>) 0)) = [0x40]"
  "writes_to (REG_LR_TEST2F datasheet)
     (trace (sx1276_set_rx datasheet (dev0\<lparr>lora_bandwidth := 8\<rparr>) 0)) = [0x40]"
  by (simp_all add: sx1276_set_rx_def errata_2_3_def sx1276_set_channel_def
      sx1276_set_op_mode_def freq_to_ticks_def prim_defs Let_def dev0_simps datasheet_simps
      cong: let_weak_cong prod.case_cong_weak)

text \<open>
  C7 as stated fails: on a LoRa device \<^verbatim>\<open>sx1276_set_rx\<close> gives nine bandwidth
  codes below 500 kHz, not eight, a test-register value; the six narrowest get a
  channel offset and the three widest of them (codes 6, 7 and 8), not two, get
  none.
\<close>

theorem errata_2_3_count_counterexample:
  "settings_modem dev0 = MODEM_LORA
   \<and> codes_with_offset = [0, 1, 2, 3, 4, 5] \<and> codes_without_offset = [6, 7, 8]
   \<and> length codes_without_offset \<noteq> 2
   \<and> length (codes_with_offset @ codes_without_offset) \<noteq> 8
   \<and> map (\<lambda>b. writes_to (REG_LR_TEST2F datasheet)
                 (trace (sx1276_set_rx datasheet (dev0\<lparr>lora_bandwidth := b\<rparr>) 0)))
         bandwidth_codes
       = [[0x48], [0x44], [0x44], [0x44], [0x44], [0x44], [0x40], [0x40], [0x40]]"
  unfolding codes_with_offset_def codes_without_offset_def bandwidth_codes_def
    filter.simps list.map set_rx_code_writes
  by (simp add: dev0_simps)

subsection \<open>Signal strength\<close>

text \<open>
  C3, as amended. When the RX-done handler of a LoRa device in reception finds
  no CRC error and memory for the packet, it returns and its last effect is the
  \<open>RX_DONE\<close> event of a packet whose RSSI is
  \<open>bandOffset + raw + (raw >> 4) + (snr if snr < 0 else 0)\<close>; \<open>raw\<close> and the
  SNR byte are the chip's registers at that time, \<open>snr\<close> is the specification's
  decode of the SNR byte, and \<open>bandOffset\<close> is -157 when the channel is above
  the mid-band threshold and -164 otherwise, the threshold itself included.
  \<^verbatim>\<open>sx1276_read_rssi\<close> with the LoRa modem returns \<open>bandOffset + raw\<close>
  with the same offset and no further term.
\<close>

theorem rx_rssi_value:
  assumes "settings_state dev = RF_RX_RUNNING" and "settings_modem dev = MODEM_LORA"
    and "cleared = sx1276_reg_write K dev (REG_LR_IRQFLAGS K) (RFLR_IRQFLAGS_RXDONE K)"
    and "chip_reg cleared (REG_LR_IRQFLAGS K) AND RFLR_IRQFLAGS_PAYLOADCRCERROR_MASK K
           \<noteq> RFLR_IRQFLAGS_PAYLOADCRCERROR K"
    and "raw = chip_reg cleared (REG_LR_PKTRSSIVALUE K)"
    and "snr = spec_snr (chip_reg cleared (REG_LR_PKTSNRVALUE K))"
  shows "(\<exists>dev'. sx1276_on_dio0 K True dev = Inr dev'
            \<and> last_rx_rssi (trace dev')
                = Some (band_offset K (settings_channel dev) + uint raw + uint raw div 16
                        + (if snr < 0 then snr else 0)))
       \<and> (\<forall>d. settings_modem d = MODEM_LORA \<longrightarrow>
              sint (fst (sx1276_read_rssi K d))
                = band_offset K (settings_channel d) + uint (chip_reg d (REG_LR_RSSIVALUE K)))"
proof -
  have b: "0 \<le> uint r \<and> uint r < 256" for r :: "8 word"
    using uint_lt2p[of r] by simp
  have rd: "sint (fst (sx1276_read_rssi K d))
              = band_offset K (settings_channel d) + uint (chip_reg d (REG_LR_RSSIVALUE K))"
    if m: "settings_modem d = MODEM_LORA" for d
  proof -
    define y where
      "y = band_offset K (settings_channel d) + uint (chip_reg d (REG_LR_RSSIVALUE K))"
    have "fst (sx1276_read_rssi K d) = word_of_int y"
      using m unfolding y_def
      by (simp add: sx1276_read_rssi_def sx1276_reg_read_def Let_def band_offset_def
          RSSI_OFFSET_HF_def RSSI_OFFSET_LF_def)
    moreover have "- 32768 \<le> y \<and> y < 32768"
      using b[of "chip_reg d (REG_LR_RSSIVALUE K)"] unfolding y_def band_offset_def
      by (auto; linarith)
    ultimately show ?thesis unfolding y_def[symmetric] by (simp only: sint16)
  qed
  define x where "x = band_offset K (settings_channel dev) + uint raw + uint raw div 16
                        + (if snr < 0 then snr else 0)"
  have "- 32768 \<le> x \<and> x < 32768"
    using b[of raw] spec_snr_bounds[of "chip_reg cleared (REG_LR_PKTSNRVALUE K)"] assms(6)
    unfolding x_def band_offset_def by (auto; linarith)
  then have sx: "sint (word_of_int x :: 16 word) = x" by (simp only: sint16)
  have "\<exists>dev'. sx1276_on_dio0 K True dev = Inr dev'
          \<and> last_rx_rssi (trace dev') = Some (sint (word_of_int x :: 16 word))"
    using assms(1-4)
    unfolding x_def assms(5,6) assms(3)
    by (simp add: sx1276_on_dio0_def sx1276_read_fifo_def prim_defs Let_def last_rx_rssi_def
        snr_decode uint_drop_bit_4 band_offset_def RSSI_OFFSET_HF_def RSSI_OFFSET_LF_def)
  then have "\<exists>dev'. sx1276_on_dio0 K True dev = Inr dev' \<and> last_rx_rssi (trace dev') = Some x"
    by (simp only: sx)
  then show ?thesis using rd unfolding x_def by blast
qed

text \<open>
  The specification's worked example: SNR byte \<open>0x04\<close> decodes to 1, and with
  raw RSSI 100 below the threshold the packet's RSSI is -58; the current RSSI read
  by \<^verbatim>\<open>sx1276_read_rssi\<close> from a register holding 100 is -64.
\<close>

theorem rx_rssi_value_witness:
  "settings_state rx_dev = RF_RX_RUNNING \<and> settings_modem rx_dev = MODEM_LORA
   \<and> spec_snr 0x04 = 1
   \<and> (\<exists>dev'. sx1276_on_dio0 datasheet True rx_dev = Inr dev'
          \<and> last_rx_rssi (trace dev') = Some (- 58))
   \<and> sint (fst (sx1276_read_rssi datasheet rx_dev)) = - 64"
proof -
  let ?c = "sx1276_reg_write datasheet rx_dev (REG_LR_IRQFLAGS datasheet)
              (RFLR_IRQFLAGS_RXDONE datasheet)"
  have h: "settings_state rx_dev = RF_RX_RUNNING" "settings_modem rx_dev = MODEM_LORA"
    "chip_reg ?c (REG_LR_IRQFLAGS datasheet) AND RFLR_IRQFLAGS_PAYLOADCRCERROR_MASK datasheet
       \<noteq> RFLR_IRQFLAGS_PAYLOADCRCERROR datasheet"
    "100 = chip_reg ?c (REG_LR_PKTRSSIVALUE datasheet)"
    "1 = spec_snr (chip_reg ?c (REG_LR_PKTSNRVALUE datasheet))"
    by (simp_all add: rx_dev_def prim_defs datasheet_simps dev0_simps spec_snr_def)
  note th = rx_rssi_value[OF h(1,2) refl h(3,4,5)]
  from th have a: "\<exists>dev'. sx1276_on_dio0 datasheet True rx_dev = Inr dev'
      \<and> last_rx_rssi (trace dev')
          = Some (band_offset datasheet (settings_channel rx_dev) + uint (100 :: 8 word)
                  + uint (100 :: 8 word) div 16 + (if (1 :: int) < 0 then 1 else 0))"
    by blast
  from th h(2) have b: "sint (fst (sx1276_read_rssi datasheet rx_dev))
      = band_offset datasheet (settings_channel rx_dev)
        + uint (chip_reg rx_dev (REG_LR_RSSIVALUE datasheet))"
    by blast
  have v: "band_offset datasheet (settings_channel rx_dev) = - 164"
    "chip_reg rx_dev (REG_LR_RSSIVALUE datasheet) = 100" "spec_snr 0x04 = 1"
    by (simp_all add: rx_dev_def band_offset_def chip_reg_def reg_index_def datasheet_simps
        dev0_simps spec_snr_def)
  show ?thesis using h(1,2) a b by (simp add: v)
qed

text \<open>
  C3 as stated fails twice. \<^verbatim>\<open>sx1276_read_rssi\<close> does not add \<open>raw >> 4\<close>:
  with raw 100 below the threshold it returns -64 where the formula gives -58.
  And on the threshold itself the handler takes the offset -164 (RSSI -58), where
  the claim's \<open>channel >= threshold\<close> gives -157 (RSSI -51).
\<close>

theorem rssi_claim_counterexample:
  "sint (fst (sx1276_read_rssi datasheet rx_dev))
      \<noteq> spec_rssi datasheet (settings_channel rx_dev) 100 1
   \<and> (\<exists>dev'. sx1276_on_dio0 datasheet True
                 (rx_dev\<lparr>settings_channel := RF_MID_BAND_THRESH datasheet\<rparr>) = Inr dev'
         \<and> last_rx_rssi (trace dev') = Some (- 58)
         \<and> spec_rssi datasheet (RF_MID_BAND_THRESH datasheet) 100 1 = - 51)"
  by (simp add: sx1276_read_rssi_def sx1276_on_dio0_def sx1276_read_fifo_def prim_defs Let_def
      rx_dev_def dev0_simps datasheet_simps spec_rssi_def last_rx_rssi_def RSSI_OFFSET_LF_def
      RSSI_OFFSET_HF_def cong: let_weak_cong prod.case_cong_weak)

text \<open>
  C10. With a modem field that is neither LoRa nor FSK, \<^verbatim>\<open>sx1276_read_rssi\<close>
  returns -1 and the device unchanged, so with no register read in the trace; and
  -1 is also a measurement: there is an FSK device on which it returns -1.
\<close>

theorem read_rssi_unknown_modem:
  assumes "settings_modem dev = MODEM_OTHER n"
  shows "sx1276_read_rssi K dev = (- 1, dev) \<and> sint (fst (sx1276_read_rssi K dev)) = - 1
     \<and> (\<exists>d. settings_modem d = MODEM_FSK \<and> sint (fst (sx1276_read_rssi K d)) = - 1)"
proof -
  have "sint (fst (sx1276_read_rssi K (dev\<lparr>settings_modem := MODEM_FSK, regs := (\<lambda>_. 2)\<rparr>)))
          = - 1"
    by (simp add: sx1276_read_rssi_def prim_defs Let_def)
  then show ?thesis using assms
    by (auto simp add: sx1276_read_rssi_def
        intro!: exI[of _ "dev\<lparr>settings_modem := MODEM_FSK, regs := (\<lambda>_. 2)\<rparr>"])
qed

theorem read_rssi_unknown_modem_witness:
  "settings_modem (dev0\<lparr>settings_modem := MODEM_OTHER 7\<rparr>) = MODEM_OTHER 7
   \<and> sx1276_read_rssi datasheet (dev0\<lparr>settings_modem := MODEM_OTHER 7\<rparr>)
       = (- 1, dev0\<lparr>settings_modem := MODEM_OTHER 7\<rparr>)
   \<and> trace (snd (sx1276_read_rssi datasheet (dev0\<lparr>settings_modem := MODEM_OTHER 7\<rparr>))) = []"
  using read_rssi_unknown_modem[of "dev0\<lparr>settings_modem := MODEM_OTHER 7\<rparr>" 7 datasheet]
  by (simp add: dev0_simps)

subsection \<open>Interrupt-line handlers\<close>

text \<open>
  C8. In state \<open>RF_RX_RUNNING\<close> of a LoRa device, with the CRC-error flag set
  in the interrupt-flag register (and the RX-done bit outside the CRC-error
  mask), the RX/TX-done handler returns; what it does is exactly: clear RX-done,
  read the flags, clear the CRC-error flag, cancel the rxTimeout timer, send
  \<open>RX_ERROR\<close> with the text "CRC error". That is the only event. The
  CRC-error flag is then clear, and the state is still \<open>RF_RX_RUNNING\<close> when
  \<open>rx_continuous\<close> is set and \<open>RF_IDLE\<close> when it is not.
\<close>

theorem on_dio0_crc_error:
  assumes "settings_state dev = RF_RX_RUNNING" and "settings_modem dev = MODEM_LORA"
    and "chip_reg dev (REG_LR_IRQFLAGS K) AND RFLR_IRQFLAGS_PAYLOADCRCERROR_MASK K
           = RFLR_IRQFLAGS_PAYLOADCRCERROR K"
    and "RFLR_IRQFLAGS_PAYLOADCRCERROR_MASK K AND RFLR_IRQFLAGS_RXDONE K = 0"
  shows "\<exists>dev'. sx1276_on_dio0 K malloc_ok dev = Inr dev'
     \<and> trace dev' = trace dev @
          [RegWrite (REG_LR_IRQFLAGS K) (RFLR_IRQFLAGS_RXDONE K),
           RegRead (REG_LR_IRQFLAGS K),
           RegWrite (REG_LR_IRQFLAGS K) (RFLR_IRQFLAGS_PAYLOADCRCERROR K),
           XtimerRemove rx_timeout_timer,
           SendEvent RX_ERROR (Text ''CRC error'')]
     \<and> events_of (drop (length (trace dev)) (trace dev')) = [(RX_ERROR, Text ''CRC error'')]
     \<and> chip_reg dev' (REG_LR_IRQFLAGS K) AND RFLR_IRQFLAGS_PAYLOADCRCERROR K = 0
     \<and> settings_state dev' = (if lora_rx_continuous dev then RF_RX_RUNNING else RF_IDLE)"
  using assms flag_kept[OF assms(4), of "regs dev (REG_LR_IRQFLAGS K AND 0x7F)"]
  by (simp add: sx1276_on_dio0_def prim_defs Let_def flag_cleared)

theorem on_dio0_crc_error_witness:
  "settings_state (rx_dev\<lparr>lora_rx_continuous := True, regs := (regs rx_dev)(0x12 := 0x60)\<rparr>)
      = RF_RX_RUNNING
   \<and> chip_reg (rx_dev\<lparr>lora_rx_continuous := True, regs := (regs rx_dev)(0x12 := 0x60)\<rparr>)
          (REG_LR_IRQFLAGS datasheet) AND RFLR_IRQFLAGS_PAYLOADCRCERROR_MASK datasheet
      = RFLR_IRQFLAGS_PAYLOADCRCERROR datasheet
   \<and> (\<exists>dev'. sx1276_on_dio0 datasheet True
                 (rx_dev\<lparr>lora_rx_continuous := True, regs := (regs rx_dev)(0x12 := 0x60)\<rparr>)
               = Inr dev'
          \<and> trace dev' = [RegWrite 0x12 0x40, RegRead 0x12, RegWrite 0x12 0x20,
                           XtimerRemove rx_timeout_timer, SendEvent RX_ERROR (Text ''CRC error'')]
          \<and> chip_reg dev' 0x12 = 0
          \<and> settings_state dev' = RF_RX_RUNNING)"
proof -
  let ?d = "rx_dev\<lparr>lora_rx_continuous := True, regs := (regs rx_dev)(0x12 := 0x60)\<rparr>"
  have h: "settings_state ?d = RF_RX_RUNNING" "settings_modem ?d = MODEM_LORA"
    "chip_reg ?d (REG_LR_IRQFLAGS datasheet) AND RFLR_IRQFLAGS_PAYLOADCRCERROR_MASK datasheet
       = RFLR_IRQFLAGS_PAYLOADCRCERROR datasheet"
    "RFLR_IRQFLAGS_PAYLOADCRCERROR_MASK datasheet AND RFLR_IRQFLAGS_RXDONE datasheet = 0"
    by (simp_all add: rx_dev_def prim_defs datasheet_simps dev0_simps)
  from on_dio0_crc_error[OF h, of True] obtain dev' where
    r: "sx1276_on_dio0 datasheet True ?d = Inr dev'"
    and t: "trace dev' = trace ?d @
          [RegWrite (REG_LR_IRQFLAGS datasheet) (RFLR_IRQFLAGS_RXDONE datasheet),
           RegRead (REG_LR_IRQFLAGS datasheet),
           RegWrite (REG_LR_IRQFLAGS datasheet) (RFLR_IRQFLAGS_PAYLOADCRCERROR datasheet),
           XtimerRemove rx_timeout_timer,
           SendEvent RX_ERROR (Text ''CRC error'')]"
    and s: "settings_state dev' = (if lora_rx_continuous ?d then RF_RX_RUNNING else RF_IDLE)"
    by blast
  have c: "chip_reg dev' 0x12 = 0"
    using r by (simp add: sx1276_on_dio0_def rx_dev_def prim_defs Let_def datasheet_simps
        dev0_simps cong: let_weak_cong prod.case_cong_weak) auto
  show ?thesis
    using h(1,3) r t s c by (simp add: rx_dev_def datasheet_simps dev0_simps)
qed

text \<open>
  C8 as stated fails when the modem is not LoRa: in state \<open>RF_RX_RUNNING\<close>
  with the CRC-error bit set in the flag register and \<open>rx_continuous\<close> set, the
  handler of an FSK device returns without any effect: no register access, no
  timer call, no event, the flag still set.
\<close>

theorem on_dio0_other_modem_counterexample:
  "settings_state (rx_dev\<lparr>settings_modem := MODEM_FSK, lora_rx_continuous := True,
                     regs := (regs rx_dev)(0x12 := 0x60)\<rparr>) = RF_RX_RUNNING
   \<and> chip_reg (rx_dev\<lparr>settings_modem := MODEM_FSK, lora_rx_continuous := True,
                     regs := (regs rx_dev)(0x12 := 0x60)\<rparr>) (REG_LR_IRQFLAGS datasheet)
        AND RFLR_IRQFLAGS_PAYLOADCRCERROR_MASK datasheet
      = RFLR_IRQFLAGS_PAYLOADCRCERROR datasheet
   \<and> sx1276_on_dio0 datasheet True
         (rx_dev\<lparr>settings_modem := MODEM_FSK, lora_rx_continuous := True,
                 regs := (regs rx_dev)(0x12 := 0x60)\<rparr>)
      = Inr (rx_dev\<lparr>settings_modem := MODEM_FSK, lora_rx_continuous := True,
                    regs := (regs rx_dev)(0x12 := 0x60)\<rparr>)
   \<and> events_of (trace (rx_dev\<lparr>settings_modem := MODEM_FSK, lora_rx_continuous := True,
                               regs := (regs rx_dev)(0x12 := 0x60)\<rparr>)) = []"
  by (simp add: sx1276_on_dio0_def rx_dev_def chip_reg_def reg_index_def datasheet_simps
      dev0_simps)

text \<open>The same for every constant table and every device whose modem is not LoRa.\<close>

lemma on_dio0_other_modem:
  "settings_state dev = RF_RX_RUNNING \<Longrightarrow> settings_modem dev \<noteq> MODEM_LORA \<Longrightarrow>
     sx1276_on_dio0 K malloc_ok dev = Inr dev"
  by (cases "settings_modem dev") (simp_all add: sx1276_on_dio0_def)

text \<open>
  C2. The CAD handler of a LoRa device whose interrupt-flag register holds
  \<open>0x05\<close> (CAD-done and CAD-detected both set): it clears the two flags first
  and reads the register afterwards, so the event it sends is \<open>CAD_DONE\<close> with
  payload false although CAD-detected was set.
\<close>

theorem on_dio3_reports_after_clearing:
  "chip_reg (dev0\<lparr>regs := (regs dev0)(0x12 := 0x05)\<rparr>) (REG_LR_IRQFLAGS datasheet)
      AND RFLR_IRQFLAGS_CADDETECTED datasheet = RFLR_IRQFLAGS_CADDETECTED datasheet
   \<and> trace (sx1276_on_dio3 datasheet (dev0\<lparr>regs := (regs dev0)(0x12 := 0x05)\<rparr>))
       = [RegWrite 0x12 0x05, RegRead 0x12, SendEvent CAD_DONE (Flag False)]"
  by (simp add: sx1276_on_dio3_def prim_defs Let_def datasheet_simps dev0_simps
      cong: let_weak_cong prod.case_cong_weak)

text \<open>
  The same for every constant table with a non-zero CAD-detected bit and every
  LoRa device: the payload is false whatever the flags were.
\<close>

lemma on_dio3_payload_false:
  "settings_modem dev = MODEM_LORA \<Longrightarrow> RFLR_IRQFLAGS_CADDETECTED K \<noteq> 0 \<Longrightarrow>
   trace (sx1276_on_dio3 K dev) = trace dev @
     [RegWrite (REG_LR_IRQFLAGS K) (RFLR_IRQFLAGS_CADDETECTED K OR RFLR_IRQFLAGS_CADDONE K),
      RegRead (REG_LR_IRQFLAGS K), SendEvent CAD_DONE (Flag False)]"
  using w1c_clears[of "regs dev (REG_LR_IRQFLAGS K AND 0x7F)" "RFLR_IRQFLAGS_CADDETECTED K"
          "RFLR_IRQFLAGS_CADDONE K"]
  by (auto simp add: sx1276_on_dio3_def prim_defs Let_def)

end
